theory Spec2Isabelle
  imports Main
begin

section \<open>Strings and the escape table\<close>

text \<open>
  A JavaScript string is a sequence of UTF-16 code units. A code unit is modelled as a
  natural number (the real ones are below 65536), a string as a list of them, so that
  the placeholder delimiter U+FFFC (65532) is one element, as it is one \<open>char\<close> of the
  source string. \<open>js\<close> writes an ASCII literal.
\<close>

type_synonym jschar = nat
type_synonym jsstring = "jschar list"

definition js :: "string \<Rightarrow> jsstring" where
  "js s = map of_char s"

abbreviation LBRACE :: jschar where "LBRACE \<equiv> 123"
abbreviation RBRACE :: jschar where "RBRACE \<equiv> 125"
abbreviation HASH :: jschar where "HASH \<equiv> 35"
abbreviation PERCENT :: jschar where "PERCENT \<equiv> 37"
abbreviation OBJ :: jschar where "OBJ \<equiv> 65532"

text \<open>
  \<open>stored: any[]\<close> holds the extracted strings; \<open>restoreContent\<close> overwrites a slot
  with \<open>null\<close>, and reading a property that the array does not have gives \<open>undefined\<close>.
\<close>

datatype jsval = Undefined | Null | Str jsstring

type_synonym cache = "jsval list"

datatype error = AssertionError | TypeError | Error jsstring | External jsstring

text \<open>JavaScript truthiness, as \<open>assert(value)\<close> tests it.\<close>

fun truthy :: "jsval \<Rightarrow> bool" where
  "truthy Undefined = False"
| "truthy Null = False"
| "truthy (Str s) = (s \<noteq> [])"

text \<open>The decimal numeral of a number, as a template literal prints it.\<close>

fun digits_of :: "nat \<Rightarrow> jsstring" where
  "digits_of n = (if n < 10 then [48 + n] else digits_of (n div 10) @ [48 + n mod 10])"

declare digits_of.simps [simp del]

definition is_digit :: "jschar \<Rightarrow> bool" where
  "is_digit c = (48 \<le> c \<and> c \<le> 57)"

text \<open>The number a run of decimal digits denotes (most significant digit first).\<close>

definition number_of :: "jsstring \<Rightarrow> nat" where
  "number_of ds = foldl (\<lambda>a c. 10 * a + (c - 48)) 0 ds"

text \<open>
  \<open>cache[index]\<close> with \<open>index\<close> the text of a capture group \<open>(\d+)\<close>: a property key
  names an array element only when it is the canonical numeral of the element's
  position (so \<open>"07"\<close> names no element), and every other digit key is a property the
  array does not have. (An array has fewer than \<open>2^32 - 1\<close> elements.)
\<close>

definition array_get :: "cache \<Rightarrow> jsstring \<Rightarrow> jsval" where
  "array_get c index =
     (if digits_of (number_of index) = index \<and> number_of index < length c
      then c ! number_of index else Undefined)"

text \<open>
  \<^verbatim>\<open>static escapeContent(cache, flag, str) {
    return `<!--${flag}\uFFFC${cache.push(str) - 1}-->`; }\<close>
\<close>

definition escapeContent :: "cache \<Rightarrow> jsstring \<Rightarrow> jsstring \<Rightarrow> jsstring \<times> cache" where
  "escapeContent c flag str =
     (js ''<!--'' @ flag @ [OBJ] @ digits_of (length (c @ [Str str]) - 1) @ js ''-->'',
      c @ [Str str])"

text \<open>
  \<^verbatim>\<open>static restoreContent(cache) {
    return (_, index) => {
      assert(cache[index]);
      const value = cache[index];
      cache[index] = null;
      return value; }; }\<close>
  The assertion throws before the slot is written, so a failed call leaves the table
  as it was.
\<close>

definition restoreContent :: "cache \<Rightarrow> jsstring \<Rightarrow> (error + jsstring) \<times> cache" where
  "restoreContent c index =
     (case array_get c index of
        Str v \<Rightarrow> if truthy (Str v) then (Inr v, c[number_of index := Null])
                 else (Inl AssertionError, c)
      | _ \<Rightarrow> (Inl AssertionError, c))"

section \<open>The scanner of \<open>escapeAllSwigTags\<close>\<close>

datatype State = PLAINTEXT | SWIG_VAR | SWIG_COMMENT | SWIG_TAG

text \<open>\<open>str.includes(sub)\<close>.\<close>

fun str_includes :: "jsstring \<Rightarrow> jsstring \<Rightarrow> bool" where
  "str_includes [] sub = (sub = [])"
| "str_includes (x # xs) sub = (take (length sub) (x # xs) = sub \<or> str_includes xs sub)"

text \<open>
  The two branches of \<open>if (isFullTag) \<dots> else \<dots>\<close> in the \<open>SWIG_TAG\<close> case, each
  translated from its own lines.
\<close>

definition push_full_tag :: "jsstring list \<Rightarrow> cache \<Rightarrow> jsstring \<Rightarrow> jsstring list \<times> cache" where
  "push_full_tag out c currentBuffer =
     (case escapeContent c (js ''swig'') (js ''{%'' @ currentBuffer @ js ''%}'') of
        (p, c') \<Rightarrow> (out @ [p], c'))"

definition push_single_tag :: "jsstring list \<Rightarrow> cache \<Rightarrow> jsstring \<Rightarrow> jsstring list \<times> cache" where
  "push_single_tag out c currentBuffer =
     (case escapeContent c (js ''swig'') (js ''{%'' @ currentBuffer @ js ''%}'') of
        (p, c') \<Rightarrow> (out @ [p], c'))"

definition close_swig_tag ::
  "bool \<Rightarrow> jsstring list \<Rightarrow> cache \<Rightarrow> jsstring \<Rightarrow> jsstring list \<times> cache" where
  "close_swig_tag isFullTag out c currentBuffer =
     (if isFullTag then push_full_tag out c currentBuffer
      else push_single_tag out c currentBuffer)"

text \<open>
  The values of the loop's variables when the \<open>for\<close> loop ends.
\<close>

record loop_state =
  output_arr :: "jsstring list"
  stored :: cache
  currentState :: State
  currentBuffer :: jsstring

text \<open>
  The \<open>for\<close> loop over \<open>str\<close>: the last argument is the text from position \<open>i\<close> on,
  \<open>char\<close> its head and \<open>nextChar\<close> the head of its tail (\<open>undefined\<close> at the end of
  the text, which equals no character); \<open>i++\<close> inside a case skips \<open>nextChar\<close>. The first
  argument is the whole \<open>str\<close>, read by \<open>str.includes\<close>.
\<close>

fun scan :: "jsstring \<Rightarrow> State \<Rightarrow> jsstring \<Rightarrow> cache \<Rightarrow> jsstring list \<Rightarrow> jsstring \<Rightarrow> loop_state" where
  "scan str st buf c out [] =
     \<lparr>output_arr = out, stored = c, currentState = st, currentBuffer = buf\<rparr>"
| "scan str PLAINTEXT buf c out [char] = scan str PLAINTEXT buf c (out @ [[char]]) []"
| "scan str PLAINTEXT buf c out (char # nextChar # rest) =
     (if char = LBRACE then
        (if nextChar = LBRACE then scan str SWIG_VAR buf c out rest
         else if nextChar = HASH then scan str SWIG_COMMENT buf c out rest
         else if nextChar = PERCENT then scan str SWIG_TAG [] c out rest
         else scan str PLAINTEXT buf c (out @ [[char]]) (nextChar # rest))
      else scan str PLAINTEXT buf c (out @ [[char]]) (nextChar # rest))"
| "scan str SWIG_VAR buf c out [char] = scan str SWIG_VAR (buf @ [char]) c out []"
| "scan str SWIG_VAR buf c out (char # nextChar # rest) =
     (if char = RBRACE \<and> nextChar = RBRACE then
        (case escapeContent c (js ''swig'') (js ''{{'' @ buf @ js ''}}'') of
           (p, c') \<Rightarrow> scan str PLAINTEXT [] c' (out @ [p]) rest)
      else scan str SWIG_VAR (buf @ [char]) c out (nextChar # rest))"
| "scan str SWIG_COMMENT buf c out [char] = scan str SWIG_COMMENT buf c out []"
| "scan str SWIG_COMMENT buf c out (char # nextChar # rest) =
     (if char = HASH \<and> nextChar = RBRACE then scan str PLAINTEXT [] c out rest
      else scan str SWIG_COMMENT buf c out (nextChar # rest))"
| "scan str SWIG_TAG buf c out [char] = scan str SWIG_TAG (buf @ [char]) c out []"
| "scan str SWIG_TAG buf c out (char # nextChar # rest) =
     (if char = PERCENT \<and> nextChar = RBRACE then
        (case close_swig_tag (str_includes str (js ''end'' @ buf)) out c buf of
           (out', c') \<Rightarrow> scan str PLAINTEXT [] c' out' rest)
      else scan str SWIG_TAG (buf @ [char]) c out (nextChar # rest))"

text \<open>
  The pre-check \<^verbatim>\<open>/\{[^{}]+\}|\{#[^\}\#]+\}|\{%[^\%]+\}%/g\<close>, one definition for each
  alternative, each saying whether that alternative matches at the start of the text.
  A greedy run \<open>[^\<dots>]+\<close> takes every character up to the first excluded one. In the
  first two alternatives the character wanted next, \<open>}\<close>, is excluded from the run, so a
  shorter run is followed by a character that is not \<open>}\<close>: only the longest run can
  match. In the third the run excludes \<open>%\<close> only and \<open>}%\<close> has to follow: the longest
  run is followed by \<open>%\<close> or by nothing, so the match gives back exactly one character,
  which is then the \<open>}\<close> that ends the run, and the run that stays is not empty.
\<close>

definition alt_braces :: "jsstring \<Rightarrow> bool" where
  "alt_braces s =
     (case s of
        c # r \<Rightarrow> c = LBRACE \<and>
          takeWhile (\<lambda>x. x \<noteq> LBRACE \<and> x \<noteq> RBRACE) r \<noteq> [] \<and>
          (case dropWhile (\<lambda>x. x \<noteq> LBRACE \<and> x \<noteq> RBRACE) r of
             d # _ \<Rightarrow> d = RBRACE | [] \<Rightarrow> False)
      | [] \<Rightarrow> False)"

definition alt_comment :: "jsstring \<Rightarrow> bool" where
  "alt_comment s =
     (case s of
        c # h # r \<Rightarrow> c = LBRACE \<and> h = HASH \<and>
          takeWhile (\<lambda>x. x \<noteq> RBRACE \<and> x \<noteq> HASH) r \<noteq> [] \<and>
          (case dropWhile (\<lambda>x. x \<noteq> RBRACE \<and> x \<noteq> HASH) r of
             d # _ \<Rightarrow> d = RBRACE | [] \<Rightarrow> False)
      | _ \<Rightarrow> False)"

definition alt_block :: "jsstring \<Rightarrow> bool" where
  "alt_block s =
     (case s of
        c # h # r \<Rightarrow> c = LBRACE \<and> h = PERCENT \<and>
          (let run = takeWhile (\<lambda>x. x \<noteq> PERCENT) r in
             2 \<le> length run \<and> last run = RBRACE) \<and>
          (case dropWhile (\<lambda>x. x \<noteq> PERCENT) r of
             d # _ \<Rightarrow> d = PERCENT | [] \<Rightarrow> False)
      | _ \<Rightarrow> False)"

text \<open>
  \<open>swigTagRegex.test(str)\<close> on the regular expression just created (\<open>lastIndex\<close> 0):
  true when an alternative matches at some position.
\<close>

fun swigTagRegex_test :: "jsstring \<Rightarrow> bool" where
  "swigTagRegex_test [] = False"
| "swigTagRegex_test (c # s) =
     (alt_braces (c # s) \<or> alt_comment (c # s) \<or> alt_block (c # s) \<or> swigTagRegex_test s)"

definition escapeAllSwigTags :: "cache \<Rightarrow> jsstring \<Rightarrow> jsstring \<times> cache" where
  "escapeAllSwigTags c str =
     (if \<not> swigTagRegex_test str then (str, c)
      else (let l = scan str PLAINTEXT [] c [] str
            in (concat (output_arr l), stored l)))"

section \<open>Restoring placeholders\<close>

text \<open>\<open>strip p s\<close>: the text after the literal \<open>p\<close>, when \<open>s\<close> starts with it.\<close>

fun strip :: "jsstring \<Rightarrow> jsstring \<Rightarrow> jsstring option" where
  "strip [] s = Some s"
| "strip (p # ps) [] = None"
| "strip (p # ps) (x # xs) = (if p = x then strip ps xs else None)"

text \<open>
  \<^verbatim>\<open>/(?:<|&lt;)!--swig\uFFFC(\d+)--(?:>|&gt;)/g\<close> and the same with \<open>code\<close> for
  \<open>swig\<close>, matched at the start of the text: the captured index and the text after the
  match. The two openers start with different characters, and so do the two closers;
  the greedy \<open>\d+\<close> is followed by \<open>-\<close>, not a digit, so only the longest run of
  digits can match.
\<close>

definition match_placeholder :: "jsstring \<Rightarrow> jsstring \<Rightarrow> (jsstring \<times> jsstring) option" where
  "match_placeholder flag s =
     (case (case strip (js ''<'') s of Some r \<Rightarrow> Some r | None \<Rightarrow> strip (js ''&lt;'') s) of
        None \<Rightarrow> None
      | Some r1 \<Rightarrow>
         (case strip (js ''!--'' @ flag @ [OBJ]) r1 of
            None \<Rightarrow> None
          | Some r2 \<Rightarrow>
             (if takeWhile is_digit r2 = [] then None
              else (case strip (js ''--'') (dropWhile is_digit r2) of
                      None \<Rightarrow> None
                    | Some r3 \<Rightarrow>
                       (case strip (js ''>'') r3 of
                          Some r4 \<Rightarrow> Some (takeWhile is_digit r2, r4)
                        | None \<Rightarrow>
                           (case strip (js ''&gt;'') r3 of
                              Some r4 \<Rightarrow> Some (takeWhile is_digit r2, r4)
                            | None \<Rightarrow> None))))))"

lemma strip_Some: "strip p s = Some r \<longleftrightarrow> s = p @ r"
  by (induction p s rule: strip.induct) auto

lemma match_placeholder_shorter:
  "match_placeholder flag s = Some (index, rest) \<Longrightarrow> length rest < length s"
proof -
  assume m: "match_placeholder flag s = Some (index, rest)"
  then obtain r1 r2 r3 where
    r1: "s = js ''<'' @ r1 \<or> s = js ''&lt;'' @ r1" and
    r2: "r1 = (js ''!--'' @ flag @ [OBJ]) @ r2" and
    r3: "dropWhile is_digit r2 = js ''--'' @ r3" and
    r4: "r3 = js ''>'' @ rest \<or> r3 = js ''&gt;'' @ rest"
    unfolding match_placeholder_def
    by (auto split: option.splits if_splits simp: strip_Some)
  have "length (dropWhile is_digit r2) \<le> length r2"
    by (rule length_dropWhile_le)
  with r1 r2 r3 r4 show ?thesis
    by (auto simp: js_def)
qed

text \<open>
  \<open>str.replace(regex, callback)\<close> with a global regular expression: the text is read
  from the left; where the expression matches, the callback's result replaces the match
  and reading goes on after it, elsewhere the character is kept. A callback that throws
  ends the call with its error.
\<close>

function replace_placeholders ::
  "jsstring \<Rightarrow> cache \<Rightarrow> jsstring \<Rightarrow> (error + jsstring) \<times> cache" where
  "replace_placeholders flag c [] = (Inr [], c)"
| "replace_placeholders flag c (x # xs) =
     (case match_placeholder flag (x # xs) of
        None \<Rightarrow>
          (case replace_placeholders flag c xs of
             (Inr r, c') \<Rightarrow> (Inr (x # r), c')
           | (Inl e, c') \<Rightarrow> (Inl e, c'))
      | Some (index, rest) \<Rightarrow>
          (case restoreContent c index of
             (Inl e, c') \<Rightarrow> (Inl e, c')
           | (Inr v, c') \<Rightarrow>
               (case replace_placeholders flag c' rest of
                  (Inr r, c'') \<Rightarrow> (Inr (v @ r), c'')
                | (Inl e, c'') \<Rightarrow> (Inl e, c''))))"
  by pat_completeness auto
termination
  by (relation "measure (\<lambda>(flag, c, s). length s)")
     (auto dest: match_placeholder_shorter)

definition restoreAllSwigTags :: "cache \<Rightarrow> jsstring \<Rightarrow> (error + jsstring) \<times> cache" where
  "restoreAllSwigTags c str = replace_placeholders (js ''swig'') c str"

definition restoreCodeBlocks :: "cache \<Rightarrow> jsstring \<Rightarrow> (error + jsstring) \<times> cache" where
  "restoreCodeBlocks c str = replace_placeholders (js ''code'') c str"

section \<open>Escaping code blocks\<close>

text \<open>
  \<^verbatim>\<open>/<hexoPostRenderCodeBlock>([\s\S]+?)<\/hexoPostRenderCodeBlock>/g\<close>. The lazy
  \<open>[\s\S]+?\<close> takes one character and then one more at a time until the closing
  marker follows: \<open>lazy_until\<close> gives the captured text and the text after the match,
  or nothing when the closing marker never follows.
\<close>

fun lazy_until :: "jsstring \<Rightarrow> jsstring \<Rightarrow> jsstring \<Rightarrow> (jsstring \<times> jsstring) option" where
  "lazy_until close acc [] = None"
| "lazy_until close acc (x # xs) =
     (case strip close xs of
        Some rest \<Rightarrow> Some (acc @ [x], rest)
      | None \<Rightarrow> lazy_until close (acc @ [x]) xs)"

definition match_code_block :: "jsstring \<Rightarrow> (jsstring \<times> jsstring) option" where
  "match_code_block s =
     (case strip (js ''<hexoPostRenderCodeBlock>'') s of
        None \<Rightarrow> None
      | Some r \<Rightarrow> lazy_until (js ''</hexoPostRenderCodeBlock>'') [] r)"

lemma lazy_until_shorter:
  "lazy_until close acc s = Some (content, rest) \<Longrightarrow> length rest < length s"
  by (induction close acc s rule: lazy_until.induct)
     (auto split: option.splits simp: strip_Some)

lemma match_code_block_shorter:
  "match_code_block s = Some (content, rest) \<Longrightarrow> length rest < length s"
  by (auto simp: match_code_block_def strip_Some split: option.splits
      dest!: lazy_until_shorter)

text \<open>
  \<^verbatim>\<open>escapeCodeBlocks(str) {
    return str.replace(rHexoPostRenderEscape,
      (_, content) => PostRenderEscape.escapeContent(this.stored, 'code', content)); }\<close>
\<close>

function escapeCodeBlocks :: "cache \<Rightarrow> jsstring \<Rightarrow> jsstring \<times> cache" where
  "escapeCodeBlocks c [] = ([], c)"
| "escapeCodeBlocks c (x # xs) =
     (case match_code_block (x # xs) of
        None \<Rightarrow> (case escapeCodeBlocks c xs of (r, c') \<Rightarrow> (x # r, c'))
      | Some (content, rest) \<Rightarrow>
          (case escapeContent c (js ''code'') content of
             (p, c') \<Rightarrow> (case escapeCodeBlocks c' rest of (r, c'') \<Rightarrow> (p @ r, c''))))"
  by pat_completeness auto
termination
  by (relation "measure (\<lambda>(c, s). length s)")
     (auto dest: match_code_block_shorter)

section \<open>Front matter\<close>

text \<open>
  The value of a metadata field, by the tests the code makes on it:
  \<open>moment.isMoment\<close>, \<open>moment.isDate\<close>, \<open>typeof item === 'string'\<close>, \<open>== null\<close>
  (\<open>null\<close> or \<open>undefined\<close>), and anything else. An object is the list of its own
  properties in the order \<open>Object.keys\<close> gives them, each key once.
\<close>

abbreviation DQUOTE :: jschar where "DQUOTE \<equiv> 34"

datatype ('t, 'o) field = IsMoment 't | IsDate 't | IsString jsstring | IsNullish | IsOther 'o

type_synonym ('t, 'o) object = "(jsstring \<times> ('t, 'o) field) list"

text \<open>\<open>item.startsWith(p)\<close>.\<close>

definition startsWith :: "jsstring \<Rightarrow> jsstring \<Rightarrow> bool" where
  "startsWith item p = (take (length p) item = p)"

text \<open>\<^verbatim>\<open>item.replace(/"/g, '\\"')\<close>.\<close>

definition escape_quotes :: "jsstring \<Rightarrow> jsstring" where
  "escape_quotes item = concat (map (\<lambda>ch. if ch = DQUOTE then [92, DQUOTE] else [ch]) item)"

text \<open>
  The body of the loop of \<open>prepareFrontMatter\<close> for one entry; the two formatting
  calls of \<open>moment\<close> (\<open>item.utc().format(...)\<close> and \<open>moment.utc(item).format(...)\<close>)
  are parameters.
\<close>

fun prepare_item ::
  "('t \<Rightarrow> jsstring) \<Rightarrow> ('t \<Rightarrow> jsstring) \<Rightarrow> bool \<Rightarrow> ('t, 'o) field \<Rightarrow> ('t, 'o) field" where
  "prepare_item fmt_moment fmt_date jsonMode (IsMoment item) = IsString (fmt_moment item)"
| "prepare_item fmt_moment fmt_date jsonMode (IsDate item) = IsString (fmt_date item)"
| "prepare_item fmt_moment fmt_date jsonMode (IsString item) =
     (if jsonMode \<or> str_includes item (js '':'') \<or> startsWith item (js ''#'')
         \<or> startsWith item (js ''!!'')
         \<or> str_includes item (js ''{'') \<or> str_includes item (js ''}'')
         \<or> str_includes item (js ''['') \<or> str_includes item (js '']'')
         \<or> str_includes item [39] \<or> str_includes item [DQUOTE]
      then IsString ([DQUOTE] @ escape_quotes item @ [DQUOTE])
      else IsString item)"
| "prepare_item fmt_moment fmt_date jsonMode IsNullish = IsNullish"
| "prepare_item fmt_moment fmt_date jsonMode (IsOther item) = IsOther item"

text \<open>
  The loop runs over \<open>Object.entries(data)\<close>, taken before the loop, and writes each
  entry's own key.
\<close>

definition prepareFrontMatter ::
  "('t \<Rightarrow> jsstring) \<Rightarrow> ('t \<Rightarrow> jsstring) \<Rightarrow> ('t, 'o) object \<Rightarrow> bool \<Rightarrow> ('t, 'o) object" where
  "prepareFrontMatter fmt_moment fmt_date data jsonMode =
     map (\<lambda>(key, item). (key, prepare_item fmt_moment fmt_date jsonMode item)) data"

definition preservedKeys :: "jsstring list" where
  "preservedKeys =
     [js ''title'', js ''slug'', js ''path'', js ''layout'', js ''date'', js ''content'']"

text \<open>
  \<open>obj[key]\<close>: the object's own property or, when it has none, what its prototype
  gives (\<open>proto\<close>, a parameter).
\<close>

definition get_prop :: "(jsstring \<Rightarrow> ('t, 'o) field) \<Rightarrow> ('t, 'o) object \<Rightarrow> jsstring \<Rightarrow> ('t, 'o) field" where
  "get_prop proto obj key = (case map_of obj key of Some v \<Rightarrow> v | None \<Rightarrow> proto key)"

text \<open>
  An object lists its integer-like keys first, in ascending order, and then its other
  keys in the order they were added. A key is integer-like when it is the canonical
  numeral of a number below \<open>2^32 - 1\<close>.
\<close>

definition is_index :: "jsstring \<Rightarrow> bool" where
  "is_index key =
     (key \<noteq> [] \<and> list_all is_digit key \<and> digits_of (number_of key) = key
      \<and> number_of key < 4294967295)"

fun overwrite :: "jsstring \<Rightarrow> ('t, 'o) field \<Rightarrow> ('t, 'o) object \<Rightarrow> ('t, 'o) object" where
  "overwrite key v [] = []"
| "overwrite key v ((k, w) # obj) =
     (if k = key then (key, v) # obj else (k, w) # overwrite key v obj)"

fun insert_index :: "jsstring \<Rightarrow> ('t, 'o) field \<Rightarrow> ('t, 'o) object \<Rightarrow> ('t, 'o) object" where
  "insert_index key v [] = [(key, v)]"
| "insert_index key v ((k, w) # obj) =
     (if is_index k \<and> number_of k < number_of key then (k, w) # insert_index key v obj
      else (key, v) # (k, w) # obj)"

text \<open>
  \<open>obj[key] = v\<close>: an own property is overwritten where it stands; a new integer-like
  key goes to its place among the integer-like keys, any other new key to the end.
\<close>

definition set_prop :: "jsstring \<Rightarrow> ('t, 'o) field \<Rightarrow> ('t, 'o) object \<Rightarrow> ('t, 'o) object" where
  "set_prop key v obj =
     (case map_of obj key of
        Some w \<Rightarrow> overwrite key v obj
      | None \<Rightarrow> if is_index key then insert_index key v obj else obj @ [(key, v)])"

text \<open>
  The merge step of \<open>_renderScaffold\<close>:
  \<^verbatim>\<open>Object.keys(data)
    .filter(key => !preservedKeys.includes(key) && obj[key] == null)
    .forEach(key => { obj[key] = data[key]; });\<close>
\<close>

definition merge_metadata ::
  "(jsstring \<Rightarrow> ('t, 'o) field) \<Rightarrow> ('t, 'o) object \<Rightarrow> ('t, 'o) object \<Rightarrow> ('t, 'o) object" where
  "merge_metadata proto data obj =
     foldl (\<lambda>ob key. set_prop key (get_prop proto data key) ob) obj
       (filter (\<lambda>key. key \<notin> set preservedKeys \<and> get_prop proto obj key = IsNullish)
          (map fst data))"

text \<open>
  Modelled from the spec: step 5 of the composition, \<open>YAML-decode\<close>, is done by \<open>load\<close>
  of the library js-yaml, and step 4 by the template engine; neither is part of this
  repository. The template engine, which hexo sets up without autoescaping, writes the
  prepared value as it is where the scaffold has \<open>key: {{ key }}\<close>. What follows is how
  a YAML reader reads that value when it starts with a double quote (YAML 1.2,
  sections 5.7 and 7.3.1, as \<open>readDoubleQuotedScalar\<close> of js-yaml does it), character by
  character up to the closing quote:

    \<^item> a backslash and the character after it stand for one character, by the table
      \<open>simple_escape\<close>: after the backslash, \<open>0\<close> gives NUL, \<open>a\<close> BEL, \<open>b\<close>
      backspace, \<open>t\<close> or a TAB gives TAB, \<open>n\<close> line feed, \<open>v\<close> vertical tab, \<open>f\<close> form
      feed, \<open>r\<close> carriage return, \<open>e\<close> escape, \<open>N\<close> next line, \<open>_\<close> non-breaking
      space, \<open>L\<close> line separator, \<open>P\<close> paragraph separator, and a space, a double
      quote, a slash or a backslash gives itself; a backslash before a character that
      is not in the table is an error (\<open>unknown escape sequence\<close>);
    \<^item> a control character other than TAB is an error
      (\<open>expected valid JSON character\<close>);
    \<^item> every other character stands for itself.

  The model says \<open>Unmodelled\<close>, and so decides nothing, where the reading goes
  beyond one quoted scalar on one line: at a line break (line folding), at the escapes
  by code (a backslash before \<open>x\<close>, \<open>u\<close> or \<open>U\<close>), when text follows the closing quote, when the value ends
  before the closing quote (the scalar then runs on into the next line of the
  scaffold), and for a value that does not start with a double quote (a plain scalar,
  which the reader resolves to a string, a number, a boolean, ...).
\<close>

datatype yaml_result = Scalar jsstring | YAMLException | Unmodelled

definition simple_escape :: "jschar \<Rightarrow> jschar option" where
  "simple_escape c =
     (if c = 48 then Some 0
      else if c = 97 then Some 7
      else if c = 98 then Some 8
      else if c = 116 then Some 9
      else if c = 9 then Some 9
      else if c = 110 then Some 10
      else if c = 118 then Some 11
      else if c = 102 then Some 12
      else if c = 114 then Some 13
      else if c = 101 then Some 27
      else if c = 32 then Some 32
      else if c = DQUOTE then Some DQUOTE
      else if c = 47 then Some 47
      else if c = 92 then Some 92
      else if c = 78 then Some 133
      else if c = 95 then Some 160
      else if c = 76 then Some 8232
      else if c = 80 then Some 8233
      else None)"

definition is_EOL :: "jschar \<Rightarrow> bool" where
  "is_EOL c = (c = 10 \<or> c = 13)"

text \<open>
  \<open>double_quoted acc rest\<close>: \<open>rest\<close> is the value after its opening quote, \<open>acc\<close> what
  has been read.
\<close>

fun double_quoted :: "jsstring \<Rightarrow> jsstring \<Rightarrow> yaml_result" where
  "double_quoted acc [] = Unmodelled"
| "double_quoted acc [ch] =
     (if ch = DQUOTE then Scalar acc
      else if ch = 92 \<or> is_EOL ch \<or> ch = 9 \<or> 32 \<le> ch then Unmodelled
      else YAMLException)"
| "double_quoted acc (ch # e # rest) =
     (if ch = DQUOTE then Unmodelled
      else if ch = 92 then
        (if is_EOL e \<or> e = 120 \<or> e = 117 \<or> e = 85 then Unmodelled
         else case simple_escape e of
                None \<Rightarrow> YAMLException
              | Some x \<Rightarrow> double_quoted (acc @ [x]) rest)
      else if is_EOL ch then Unmodelled
      else if ch = 9 \<or> 32 \<le> ch then double_quoted (acc @ [ch]) (e # rest)
      else YAMLException)"

definition yaml_value :: "jsstring \<Rightarrow> yaml_result" where
  "yaml_value v =
     (case v of
        [] \<Rightarrow> Unmodelled
      | ch # rest \<Rightarrow> if ch = DQUOTE then double_quoted [] rest else Unmodelled)"

section \<open>Creating and publishing posts\<close>

text \<open>
  The collaborators of \<open>Post\<close> are parameters, gathered in one record: the
  configuration, the run-time conversions the code relies on, \<open>moment\<close>, \<open>path\<close>,
  \<open>hexo-util\<close>, \<open>hexo-fs\<close>, \<open>hexo-front-matter\<close>, \<open>js-yaml\<close> and the context's
  filters, scaffolds, tag renderer and event emitter. \<open>'w\<close> is the state of the world
  they act on (the file system and the listeners): an operation that changes it returns
  the new state, and fails with a description of its error.
\<close>

record split =
  separator :: "jsstring option"
  prefixSeparator :: bool
  split_data :: "jsstring option"
  split_content :: jsstring

record result =
  result_path :: jsstring
  result_content :: jsstring

record ('w, 't, 'o) hexo =
  default_layout :: jsstring
  post_asset_folder :: bool
  source_dir :: jsstring
  proto :: "jsstring \<Rightarrow> ('t, 'o) field"
  field_toString :: "('t, 'o) field \<Rightarrow> jsstring"
  other_truthy :: "'o \<Rightarrow> bool"
  toLowerCase :: "jsstring \<Rightarrow> jsstring"
  moment_of :: "('t, 'o) field \<Rightarrow> 't"
  moment_now :: "'w \<Rightarrow> 't"
  format_moment :: "'t \<Rightarrow> jsstring"
  format_date :: "'t \<Rightarrow> jsstring"
  path_join :: "jsstring \<Rightarrow> jsstring \<Rightarrow> jsstring"
  extname :: "jsstring \<Rightarrow> jsstring"
  basename :: "jsstring \<Rightarrow> jsstring"
  slugize :: "jsstring \<Rightarrow> jsstring"
  listDir :: "'w \<Rightarrow> jsstring \<Rightarrow> jsstring + jsstring list"
  readFile :: "'w \<Rightarrow> jsstring \<Rightarrow> jsstring + jsstring"
  writeFile :: "'w \<Rightarrow> jsstring \<Rightarrow> jsstring \<Rightarrow> jsstring + 'w"
  unlink :: "'w \<Rightarrow> jsstring \<Rightarrow> jsstring + 'w"
  exists_path :: "'w \<Rightarrow> jsstring \<Rightarrow> bool"
  mkdirs :: "'w \<Rightarrow> jsstring \<Rightarrow> jsstring + 'w"
  copyDir :: "'w \<Rightarrow> jsstring \<Rightarrow> jsstring \<Rightarrow> jsstring + 'w"
  rmdir :: "'w \<Rightarrow> jsstring \<Rightarrow> jsstring + 'w"
  yfmParse :: "jsstring \<Rightarrow> jsstring + ('t, 'o) object"
  yfmSplit :: "jsstring option \<Rightarrow> jsstring + split"
  yfmStringify :: "('t, 'o) object \<Rightarrow> bool \<Rightarrow> jsstring + jsstring"
  JSON_parse :: "jsstring \<Rightarrow> jsstring + ('t, 'o) object"
  yaml_load :: "jsstring \<Rightarrow> jsstring + ('t, 'o) object"
  new_post_path :: "'w \<Rightarrow> ('t, 'o) object \<Rightarrow> bool \<Rightarrow> jsstring + jsstring"
  scaffold_get :: "'w \<Rightarrow> ('t, 'o) field \<Rightarrow> jsstring + jsstring option"
  tag_render :: "jsstring option \<Rightarrow> ('t, 'o) object \<Rightarrow> jsstring + jsstring"
  emit_new :: "'w \<Rightarrow> result \<Rightarrow> 'w"

text \<open>An error of a collaborator, passed on as it is.\<close>

definition collaborator :: "jsstring + 'a \<Rightarrow> error + 'a" where
  "collaborator r = (case r of Inl e \<Rightarrow> Inl (External e) | Inr v \<Rightarrow> Inr v)"

text \<open>Truthiness, \<open>.toString()\<close>, \<open>.toLowerCase()\<close> and \<open>`${v}`\<close> on a field.\<close>

fun field_truthy :: "('w, 't, 'o) hexo \<Rightarrow> ('t, 'o) field \<Rightarrow> bool" where
  "field_truthy h (IsString s) = (s \<noteq> [])"
| "field_truthy h IsNullish = False"
| "field_truthy h (IsMoment m) = True"
| "field_truthy h (IsDate d) = True"
| "field_truthy h (IsOther x) = other_truthy h x"

fun to_string :: "('w, 't, 'o) hexo \<Rightarrow> ('t, 'o) field \<Rightarrow> error + jsstring" where
  "to_string h (IsString s) = Inr s"
| "to_string h IsNullish = Inl TypeError"
| "to_string h v = Inr (field_toString h v)"

fun lower_case :: "('w, 't, 'o) hexo \<Rightarrow> ('t, 'o) field \<Rightarrow> error + jsstring" where
  "lower_case h (IsString s) = Inr (toLowerCase h s)"
| "lower_case h v = Inl TypeError"

fun template_string :: "('w, 't, 'o) hexo \<Rightarrow> ('t, 'o) field \<Rightarrow> jsstring" where
  "template_string h (IsString s) = s"
| "template_string h v = field_toString h v"

definition removeExtname :: "('w, 't, 'o) hexo \<Rightarrow> jsstring \<Rightarrow> jsstring" where
  "removeExtname h str = take (length str - length (extname h str)) str"

definition createAssetFolder ::
  "('w, 't, 'o) hexo \<Rightarrow> 'w \<Rightarrow> jsstring \<Rightarrow> bool \<Rightarrow> (error + unit) \<times> 'w" where
  "createAssetFolder h w path assetFolder =
     (if \<not> assetFolder then (Inr (), w)
      else if basename h (removeExtname h path) = js ''index'' then (Inr (), w)
      else if \<not> exists_path h w (removeExtname h path) then
        (case mkdirs h w (removeExtname h path) of
           Inl e \<Rightarrow> (Inl (External e), w)
         | Inr w' \<Rightarrow> (Inr (), w'))
      else (Inr (), w))"

text \<open>\<open>_getScaffold\<close> and \<open>_renderScaffold\<close>.\<close>

definition getScaffold ::
  "('w, 't, 'o) hexo \<Rightarrow> 'w \<Rightarrow> ('t, 'o) field \<Rightarrow> error + jsstring option" where
  "getScaffold h w layout =
     (case scaffold_get h w layout of
        Inl e \<Rightarrow> Inl (External e)
      | Inr (Some scaffold) \<Rightarrow> Inr (Some scaffold)
      | Inr None \<Rightarrow> collaborator (scaffold_get h w (IsString (js ''normal''))))"

definition renderScaffold ::
  "('w, 't, 'o) hexo \<Rightarrow> 'w \<Rightarrow> ('t, 'o) object \<Rightarrow> error + jsstring" where
  "renderScaffold h w data =
     (case getScaffold h w (get_prop (proto h) data (js ''layout'')) of
        Inl e \<Rightarrow> Inl e
      | Inr scaffold \<Rightarrow>
     (case yfmSplit h scaffold of
        Inl e \<Rightarrow> Inl (External e)
      | Inr splitted \<Rightarrow>
     (case separator splitted of
        None \<Rightarrow> Inl TypeError
      | Some sep \<Rightarrow>
     (case tag_render h (split_data splitted)
             (prepareFrontMatter (format_moment h) (format_date h) data
                (startsWith sep (js '';''))) of
        Inl e \<Rightarrow> Inl (External e)
      | Inr frontMatter \<Rightarrow>
     (case (if startsWith sep (js '';'')
            then JSON_parse h (js ''{'' @ frontMatter @ js ''}'')
            else yaml_load h frontMatter) of
        Inl e \<Rightarrow> Inl (External e)
      | Inr obj \<Rightarrow>
     (case yfmStringify h (merge_metadata (proto h) data obj) (startsWith sep (js '';'')) of
        Inl e \<Rightarrow> Inl (External e)
      | Inr text \<Rightarrow>
          Inr ((if prefixSeparator splitted then sep @ [10] else [])
               @ text @ split_content splitted
               @ (if field_truthy h (get_prop (proto h) data (js ''content''))
                  then [10] @ template_string h (get_prop (proto h) data (js ''content''))
                  else []))))))))"

text \<open>\<open>a || b\<close>.\<close>

definition or_else :: "('w, 't, 'o) hexo \<Rightarrow> ('t, 'o) field \<Rightarrow> ('t, 'o) field \<Rightarrow> ('t, 'o) field" where
  "or_else h a b = (if field_truthy h a then a else b)"

text \<open>
  \<open>create\<close>. The two promises of each \<open>Promise.all\<close> run side by side; the model
  takes the path first and the scaffold second, and lets both the write and the asset
  folder run before it reports a failure of either.
\<close>

definition create ::
  "('w, 't, 'o) hexo \<Rightarrow> ('t, 'o) object \<Rightarrow> bool \<Rightarrow> 'w \<Rightarrow>
   (error + result) \<times> ('t, 'o) object \<times> 'w" where
  "create h data replace w =
     (case to_string h (or_else h (get_prop (proto h) data (js ''slug''))
                                  (get_prop (proto h) data (js ''title''))) of
        Inl e \<Rightarrow> (Inl e, data, w)
      | Inr s \<Rightarrow>
     (let data1 = set_prop (js ''slug'') (IsString (slugize h s)) data in
      case lower_case h (or_else h (get_prop (proto h) data1 (js ''layout''))
                                    (IsString (default_layout h))) of
        Inl e \<Rightarrow> (Inl e, data1, w)
      | Inr layout \<Rightarrow>
     (let data2 = set_prop (js ''layout'') (IsString layout) data1;
          data3 = set_prop (js ''date'')
                    (IsMoment (if field_truthy h (get_prop (proto h) data2 (js ''date''))
                               then moment_of h (get_prop (proto h) data2 (js ''date''))
                               else moment_now h w)) data2
      in
      case new_post_path h w data3 replace of
        Inl e \<Rightarrow> (Inl (External e), data3, w)
      | Inr path \<Rightarrow>
     (case renderScaffold h w data3 of
        Inl e \<Rightarrow> (Inl e, data3, w)
      | Inr content \<Rightarrow>
     (let written = writeFile h w path content;
          w1 = (case written of Inl e \<Rightarrow> w | Inr w' \<Rightarrow> w');
          folder = createAssetFolder h w1 path (post_asset_folder h)
      in
      case written of
        Inl e \<Rightarrow> (Inl (External e), data3, snd folder)
      | Inr _ \<Rightarrow>
     (case fst folder of
        Inl e \<Rightarrow> (Inl e, data3, snd folder)
      | Inr _ \<Rightarrow>
          (Inr \<lparr>result_path = path, result_content = content\<rparr>, data3,
           emit_new h (snd folder) \<lparr>result_path = path, result_content = content\<rparr>)))))))"

text \<open>
  \<^verbatim>\<open>new RegExp(`^${escapeRegExp(slug)}(?:[^\\/\\\\]+)`).test(item)\<close>: the entry starts
  with the slug, and a character other than \<open>/\<close> and \<open>\\<close> follows it.
\<close>

definition draft_regex_test :: "jsstring \<Rightarrow> jsstring \<Rightarrow> bool" where
  "draft_regex_test slug item =
     (take (length slug) item = slug \<and>
      (case drop (length slug) item of
         [] \<Rightarrow> False
       | ch # _ \<Rightarrow> ch \<noteq> 47 \<and> ch \<noteq> 92))"

definition publish ::
  "('w, 't, 'o) hexo \<Rightarrow> ('t, 'o) object \<Rightarrow> bool \<Rightarrow> 'w \<Rightarrow>
   (error + result) \<times> ('t, 'o) object \<times> 'w" where
  "publish h data replace w =
     (let data1 = (if get_prop (proto h) data (js ''layout'') = IsString (js ''draft'')
                   then set_prop (js ''layout'') (IsString (js ''post'')) data else data);
          draftDir = path_join h (source_dir h) (js ''_drafts'')
      in
      case to_string h (get_prop (proto h) data1 (js ''slug'')) of
        Inl e \<Rightarrow> (Inl e, data1, w)
      | Inr s \<Rightarrow>
     (let slug = slugize h s;
          data2 = set_prop (js ''slug'') (IsString slug) data1
      in
      case lower_case h (or_else h (get_prop (proto h) data2 (js ''layout''))
                                    (IsString (default_layout h))) of
        Inl e \<Rightarrow> (Inl e, data2, w)
      | Inr layout \<Rightarrow>
     (let data3 = set_prop (js ''layout'') (IsString layout) data2 in
      case listDir h w draftDir of
        Inl e \<Rightarrow> (Inl (External e), data3, w)
      | Inr list \<Rightarrow>
     (case find (draft_regex_test slug) list of
        None \<Rightarrow> (Inl (Error (js ''Draft '' @ [DQUOTE] @ slug @ [DQUOTE] @ js '' does not exist.'')),
                 data3, w)
      | Some item \<Rightarrow>
     (let src = path_join h draftDir item in
      case readFile h w src of
        Inl e \<Rightarrow> (Inl (External e), data3, w)
      | Inr content \<Rightarrow>
     (case yfmParse h content of
        Inl e \<Rightarrow> (Inl (External e), data3, w)
      | Inr parsed \<Rightarrow>
     (let data4 = foldl (\<lambda>d (key, v). set_prop key v d) data3 parsed;
          data5 = set_prop (js ''content'') (get_prop (proto h) data4 (js ''_content'')) data4;
          data6 = set_prop (js ''_content'') IsNullish data5
      in
      case create h data6 replace w of
        (Inl e, data7, w1) \<Rightarrow> (Inl e, data7, w1)
      | (Inr post, data7, w1) \<Rightarrow>
     (case unlink h w1 src of
        Inl e \<Rightarrow> (Inl (External e), data7, w1)
      | Inr w2 \<Rightarrow>
          if \<not> post_asset_folder h then (Inr post, data7, w2)
          else if \<not> exists_path h w2 (removeExtname h src) then (Inr post, data7, w2)
          else
     (case copyDir h w2 (removeExtname h src) (removeExtname h (result_path post)) of
        Inl e \<Rightarrow> (Inl (External e), data7, w2)
      | Inr w3 \<Rightarrow>
     (case rmdir h w3 (removeExtname h src) of
        Inl e \<Rightarrow> (Inl (External e), data7, w3)
      | Inr w4 \<Rightarrow> (Inr post, data7, w4)))))))))))"

section \<open>Rendering\<close>

text \<open>
  \<open>disableNunjucks\<close> is \<open>false\<close>, \<open>true\<close>, or a falsy value that is not \<open>false\<close>
  (an empty extension, or no renderer for it): the code tests it with \<open>=== false\<close>
  before escaping and for truthiness in \<open>onRenderEnd\<close>.
\<close>

datatype flag3 = IsFalse | IsTrue | Falsy

record ('x, 'opts) RenderData =
  rd_content :: "jsstring option"
  rd_engine :: "jsstring option"
  rd_source :: "jsstring option"
  rd_disableNunjucks :: "bool option"
  rd_markdown :: "'opts option"
  rd_rest :: 'x

text \<open>
  The collaborators of \<open>render\<close>. The external renderer is two functions: the text it
  hands to \<open>onRenderEnd\<close>, and what it returns from the callback's result (from its
  own text when there is no callback).
\<close>

record ('w, 'x, 'opts) renderer =
  syntax_highlighter :: bool
  r_extname :: "jsstring \<Rightarrow> jsstring"
  r_readFile :: "'w \<Rightarrow> jsstring \<Rightarrow> jsstring + jsstring"
  getOutput :: "jsstring \<Rightarrow> jsstring"
  renderer_disableNunjucks :: "jsstring \<Rightarrow> bool option"
  render_text :: "'w \<Rightarrow> jsstring \<Rightarrow> jsstring option \<Rightarrow> jsstring option \<Rightarrow> 'opts option \<Rightarrow> jsstring + jsstring"
  render_finish :: "'w \<Rightarrow> jsstring \<Rightarrow> jsstring + jsstring"
  empty_options :: 'opts
  no_highlight :: "'opts \<Rightarrow> 'opts"
  before_post_render :: "'w \<Rightarrow> ('x, 'opts) RenderData \<Rightarrow> jsstring + ('x, 'opts) RenderData"
  after_post_render :: "'w \<Rightarrow> ('x, 'opts) RenderData \<Rightarrow> jsstring + ('x, 'opts) RenderData"
  tag_render_content :: "jsstring \<Rightarrow> ('x, 'opts) RenderData \<Rightarrow> jsstring + jsstring"

definition str_truthy :: "jsstring option \<Rightarrow> bool" where
  "str_truthy s = (case s of None \<Rightarrow> False | Some t \<Rightarrow> t \<noteq> [])"

text \<open>The variable \<open>promise\<close>, or the early rejection.\<close>

definition render_promise ::
  "('w, 'x, 'opts) renderer \<Rightarrow> 'w \<Rightarrow> jsstring option \<Rightarrow> ('x, 'opts) RenderData \<Rightarrow> error + jsstring" where
  "render_promise e w source data =
     (case rd_content data of
        Some content \<Rightarrow> Inr content
      | None \<Rightarrow>
          if str_truthy source then collaborator (r_readFile e w (the source))
          else Inl (Error (js ''No input file or string!'')))"

definition render_ext ::
  "('w, 'x, 'opts) renderer \<Rightarrow> jsstring option \<Rightarrow> ('x, 'opts) RenderData \<Rightarrow> jsstring" where
  "render_ext e source data =
     (if str_truthy (rd_engine data) then the (rd_engine data)
      else if str_truthy source then r_extname e (the source) else [])"

definition render_disableNunjucks ::
  "('w, 'x, 'opts) renderer \<Rightarrow> jsstring option \<Rightarrow> ('x, 'opts) RenderData \<Rightarrow> flag3" where
  "render_disableNunjucks e source data =
     (case rd_disableNunjucks data of
        Some b \<Rightarrow> (if b then IsTrue else IsFalse)
      | None \<Rightarrow>
          if render_ext e source data = [] then Falsy
          else (case renderer_disableNunjucks e (render_ext e source data) of
                  None \<Rightarrow> Falsy
                | Some b \<Rightarrow> (if b then IsTrue else IsFalse)))"

definition onRenderEnd ::
  "('w, 'x, 'opts) renderer \<Rightarrow> flag3 \<Rightarrow> cache \<Rightarrow> ('x, 'opts) RenderData \<Rightarrow> jsstring \<Rightarrow>
   (error + jsstring) \<times> cache \<times> ('x, 'opts) RenderData" where
  "onRenderEnd e disableNunjucks c data content =
     (case restoreAllSwigTags c content of
        (Inl err, c') \<Rightarrow> (Inl err, c', data)
      | (Inr restored, c') \<Rightarrow>
          if disableNunjucks = IsTrue
          then (Inr restored, c', data\<lparr>rd_content := Some restored\<rparr>)
          else (collaborator (tag_render_content e restored (data\<lparr>rd_content := Some restored\<rparr>)),
                c', data\<lparr>rd_content := Some restored\<rparr>))"

definition escape_stage :: "flag3 \<Rightarrow> jsstring \<Rightarrow> jsstring \<times> cache" where
  "escape_stage disableNunjucks text =
     (case escapeCodeBlocks [] text of
        (coded, c) \<Rightarrow> if disableNunjucks = IsFalse then escapeAllSwigTags c coded else (coded, c))"

definition render_options ::
  "('w, 'x, 'opts) renderer \<Rightarrow> ('x, 'opts) RenderData \<Rightarrow> 'opts" where
  "render_options e data =
     (case rd_markdown data of
        None \<Rightarrow> if \<not> syntax_highlighter e then no_highlight e (empty_options e)
                else empty_options e
      | Some m \<Rightarrow> if \<not> syntax_highlighter e then no_highlight e m else m)"

definition render_with_callback ::
  "('w, 'x, 'opts) renderer \<Rightarrow> 'w \<Rightarrow> jsstring option \<Rightarrow> flag3 \<Rightarrow> cache \<Rightarrow>
   ('x, 'opts) RenderData \<Rightarrow> jsstring \<Rightarrow> 'opts \<Rightarrow>
   (error + jsstring) \<times> cache \<times> ('x, 'opts) RenderData" where
  "render_with_callback e w source disableNunjucks c data content options =
     (case render_text e w content source (rd_engine data) (Some options) of
        Inl err \<Rightarrow> (Inl (External err), c, data)
      | Inr mid \<Rightarrow>
          (case onRenderEnd e disableNunjucks c data mid of
             (Inl err, c', data') \<Rightarrow> (Inl err, c', data')
           | (Inr ended, c', data') \<Rightarrow> (collaborator (render_finish e w ended), c', data')))"

definition after_render ::
  "('w, 'x, 'opts) renderer \<Rightarrow> 'w \<Rightarrow> cache \<Rightarrow> ('x, 'opts) RenderData \<Rightarrow> jsstring \<Rightarrow>
   error + ('x, 'opts) RenderData" where
  "after_render e w c data content =
     (case restoreCodeBlocks c content of
        (Inl err, c') \<Rightarrow> Inl err
      | (Inr restored, c') \<Rightarrow>
          collaborator (after_post_render e w (data\<lparr>rd_content := Some restored\<rparr>)))"

definition render_post ::
  "('w, 'x, 'opts) renderer \<Rightarrow> 'w \<Rightarrow> jsstring option \<Rightarrow> flag3 \<Rightarrow>
   ('x, 'opts) RenderData \<Rightarrow> jsstring \<Rightarrow> error + ('x, 'opts) RenderData" where
  "render_post e w source disableNunjucks data content =
     (case before_post_render e w (data\<lparr>rd_content := Some content\<rparr>) of
        Inl err \<Rightarrow> Inl (External err)
      | Inr d1 \<Rightarrow>
     (case rd_content d1 of
        None \<Rightarrow> Inl TypeError
      | Some text \<Rightarrow>
     (case escape_stage disableNunjucks text of
        (escaped, c) \<Rightarrow>
     (case render_with_callback e w source disableNunjucks c
             (d1\<lparr>rd_content := Some escaped,
                 rd_markdown := map_option (\<lambda>m. render_options e d1) (rd_markdown d1)\<rparr>)
             escaped (render_options e d1) of
        (Inl err, c', d2) \<Rightarrow> Inl err
      | (Inr out, c', d2) \<Rightarrow> after_render e w c' d2 out))))"

definition render_asset ::
  "('w, 'x, 'opts) renderer \<Rightarrow> 'w \<Rightarrow> jsstring option \<Rightarrow>
   ('x, 'opts) RenderData \<Rightarrow> jsstring \<Rightarrow> error + ('x, 'opts) RenderData" where
  "render_asset e w source data content =
     (case render_text e w content source (rd_engine data) None of
        Inl err \<Rightarrow> Inl (External err)
      | Inr mid \<Rightarrow>
          (case render_finish e w mid of
             Inl err \<Rightarrow> Inl (External err)
           | Inr out \<Rightarrow> Inr (data\<lparr>rd_content := Some out\<rparr>)))"

definition isPost :: "('w, 'x, 'opts) renderer \<Rightarrow> ('x, 'opts) RenderData \<Rightarrow> bool" where
  "isPost e data =
     (\<not> str_truthy (rd_source data)
      \<or> getOutput e (the (rd_source data)) \<in> set [js ''html'', js ''htm''])"

definition render ::
  "('w, 'x, 'opts) renderer \<Rightarrow> 'w \<Rightarrow> jsstring option \<Rightarrow> ('x, 'opts) RenderData \<Rightarrow>
   error + ('x, 'opts) RenderData" where
  "render e w source data =
     (case render_promise e w source data of
        Inl err \<Rightarrow> Inl err
      | Inr content \<Rightarrow>
          if \<not> isPost e data then render_asset e w source data content
          else render_post e w source (render_disableNunjucks e source data) data content)"

section \<open>A small world\<close>

text \<open>
  Collaborators to run the model on: the world is the list of the operations that
  changed it.
\<close>

definition demo_hexo :: "(jsstring list, unit, unit) hexo" where
  "demo_hexo =
     \<lparr>default_layout = js ''post'', post_asset_folder = True, source_dir = js ''source'',
      proto = (\<lambda>k. IsNullish), field_toString = (\<lambda>v. js ''[object Object]''),
      other_truthy = (\<lambda>x. True), toLowerCase = (\<lambda>s. s),
      moment_of = (\<lambda>v. ()), moment_now = (\<lambda>w. ()),
      format_moment = (\<lambda>t. js ''2020-01-01 00:00:00''),
      format_date = (\<lambda>t. js ''2020-01-01 00:00:00''),
      path_join = (\<lambda>a b. a @ js ''/'' @ b), extname = (\<lambda>p. js ''.md''),
      basename = (\<lambda>p. p), slugize = (\<lambda>s. s),
      listDir = (\<lambda>w dir. Inr [js ''hello.md'', js ''my-pos.md'']),
      readFile = (\<lambda>w p. Inr []),
      writeFile = (\<lambda>w p c. Inr (w @ [js ''writeFile''])),
      unlink = (\<lambda>w p. Inr (w @ [js ''unlink''])),
      exists_path = (\<lambda>w p. True),
      mkdirs = (\<lambda>w p. Inr (w @ [js ''mkdirs''])),
      copyDir = (\<lambda>w p q. Inr (w @ [js ''copyDir''])),
      rmdir = (\<lambda>w p. Inr (w @ [js ''rmdir''])),
      yfmParse = (\<lambda>s. Inr []),
      yfmSplit = (\<lambda>s. Inl (js ''no scaffold'')),
      yfmStringify = (\<lambda>obj m. Inr []),
      JSON_parse = (\<lambda>s. Inr []), yaml_load = (\<lambda>s. Inr []),
      new_post_path = (\<lambda>w d r. Inr (js ''source/_posts/x.md'')),
      scaffold_get = (\<lambda>w l. Inr None),
      tag_render = (\<lambda>t d. Inr []),
      emit_new = (\<lambda>w r. w @ [js ''emit'']) \<rparr>"

definition demo_renderer :: "(unit, unit, unit) renderer" where
  "demo_renderer =
     \<lparr>syntax_highlighter = True, r_extname = (\<lambda>p. js ''.md''),
      r_readFile = (\<lambda>w p. Inr (js ''from file'')),
      getOutput = (\<lambda>p. js ''html''),
      renderer_disableNunjucks = (\<lambda>ext. Some False),
      render_text = (\<lambda>w t p en opts. Inr (js ''<p>'' @ t)),
      render_finish = (\<lambda>w t. Inr t),
      empty_options = (), no_highlight = (\<lambda>opts. opts),
      before_post_render = (\<lambda>w d. Inr d),
      after_post_render = (\<lambda>w d. Inr d),
      tag_render_content = (\<lambda>t d. Inr t)\<rparr>"

definition demo_data :: "jsstring option \<Rightarrow> (unit, unit) RenderData" where
  "demo_data content =
     \<lparr>rd_content = content, rd_engine = None, rd_source = None,
      rd_disableNunjucks = None, rd_markdown = None, rd_rest = ()\<rparr>"

section \<open>What the scanner emits\<close>

text \<open>
  For the proofs, the pushes of the loop are read as a list of items: a character
  copied from the text, or a tag that went to the table. \<open>items\<close> follows the cases of
  \<open>scan\<close>; \<open>scan_items\<close> below proves that \<open>scan\<close> pushes exactly the rendering of
  these items, and stores exactly their tags.
\<close>

datatype item = Lit jschar | Tag jsstring

fun items :: "State \<Rightarrow> jsstring \<Rightarrow> jsstring \<Rightarrow> item list" where
  "items st buf [] = []"
| "items PLAINTEXT buf [ch] = [Lit ch]"
| "items PLAINTEXT buf (ch # nx # rest) =
     (if ch = LBRACE then
        (if nx = LBRACE then items SWIG_VAR buf rest
         else if nx = HASH then items SWIG_COMMENT buf rest
         else if nx = PERCENT then items SWIG_TAG [] rest
         else Lit ch # items PLAINTEXT buf (nx # rest))
      else Lit ch # items PLAINTEXT buf (nx # rest))"
| "items SWIG_VAR buf [ch] = []"
| "items SWIG_VAR buf (ch # nx # rest) =
     (if ch = RBRACE \<and> nx = RBRACE
      then Tag (js ''{{'' @ buf @ js ''}}'') # items PLAINTEXT [] rest
      else items SWIG_VAR (buf @ [ch]) (nx # rest))"
| "items SWIG_COMMENT buf [ch] = []"
| "items SWIG_COMMENT buf (ch # nx # rest) =
     (if ch = HASH \<and> nx = RBRACE then items PLAINTEXT [] rest
      else items SWIG_COMMENT buf (nx # rest))"
| "items SWIG_TAG buf [ch] = []"
| "items SWIG_TAG buf (ch # nx # rest) =
     (if ch = PERCENT \<and> nx = RBRACE
      then Tag (js ''{%'' @ buf @ js ''%}'') # items PLAINTEXT [] rest
      else items SWIG_TAG (buf @ [ch]) (nx # rest))"

text \<open>The pieces pushed for a list of items, the first tag taking index \<open>n\<close>.\<close>

fun render_items :: "nat \<Rightarrow> item list \<Rightarrow> jsstring list" where
  "render_items n [] = []"
| "render_items n (Lit ch # its) = [ch] # render_items n its"
| "render_items n (Tag t # its) =
     (js ''<!--swig'' @ [OBJ] @ digits_of n @ js ''-->'') # render_items (Suc n) its"

fun tags :: "item list \<Rightarrow> jsstring list" where
  "tags [] = []"
| "tags (Lit ch # its) = tags its"
| "tags (Tag t # its) = t # tags its"

fun item_text :: "item \<Rightarrow> jsstring" where
  "item_text (Lit ch) = [ch]"
| "item_text (Tag t) = t"

text \<open>The text that opened the tag the scanner is in, with what it has buffered.\<close>

fun pending :: "State \<Rightarrow> jsstring \<Rightarrow> jsstring" where
  "pending PLAINTEXT buf = []"
| "pending SWIG_VAR buf = js ''{{'' @ buf"
| "pending SWIG_COMMENT buf = []"
| "pending SWIG_TAG buf = js ''{%'' @ buf"

text \<open>
  A text is guarded when its first U+FFFC, if it has one, comes after a \<open><\<close>: a
  placeholder cannot start before that \<open><\<close>.
\<close>

definition guarded :: "jsstring \<Rightarrow> bool" where
  "guarded X = (if OBJ \<in> set X then 60 \<in> set (takeWhile (\<lambda>c. c \<noteq> OBJ) X) else True)"

section \<open>Words of the specification\<close>

text \<open>
  Templating syntax, as the specification names it: an opener \<open>{{\<close>, \<open>{#\<close> or \<open>{%\<close>
  somewhere in the text.
\<close>

fun has_opener :: "jsstring \<Rightarrow> bool" where
  "has_opener (a # b # r) =
     ((a = LBRACE \<and> (b = LBRACE \<or> b = HASH \<or> b = PERCENT)) \<or> has_opener (b # r))"
| "has_opener [a] = False"
| "has_opener [] = False"

text \<open>A comment opener \<open>{#\<close> somewhere in the text.\<close>

fun has_comment_opener :: "jsstring \<Rightarrow> bool" where
  "has_comment_opener (a # b # r) = ((a = LBRACE \<and> b = HASH) \<or> has_comment_opener (b # r))"
| "has_comment_opener [a] = False"
| "has_comment_opener [] = False"

text \<open>A comment closer \<open>#}\<close> somewhere in the text.\<close>

fun has_comment_closer :: "jsstring \<Rightarrow> bool" where
  "has_comment_closer (a # b # r) = ((a = HASH \<and> b = RBRACE) \<or> has_comment_closer (b # r))"
| "has_comment_closer [a] = False"
| "has_comment_closer [] = False"

text \<open>
  Every tag of the text is closed: the scanner, run over the whole text, is back in
  \<open>PLAINTEXT\<close> when the text ends.
\<close>

definition tags_closed :: "jsstring \<Rightarrow> bool" where
  "tags_closed T = (currentState (scan T PLAINTEXT [] [] [] T) = PLAINTEXT)"

section \<open>Lemmas on the scanner\<close>

lemma scan_whole_text: "scan str st buf c out s = scan str' st buf c out s"
  by (induction str st buf c out s rule: scan.induct)
     (simp_all add: close_swig_tag_def push_full_tag_def push_single_tag_def escapeContent_def)

lemma scan_state_only:
  "currentState (scan str st buf c out s) = currentState (scan str' st buf c' out' s)"
  by (induction str st buf c out s arbitrary: c' out' rule: scan.induct)
     (simp_all add: close_swig_tag_def push_full_tag_def push_single_tag_def escapeContent_def)

lemma scan_plain:
  "\<not> has_opener s \<Longrightarrow>
   scan str PLAINTEXT buf c out s =
     \<lparr>output_arr = out @ map (\<lambda>x. [x]) s, stored = c, currentState = PLAINTEXT,
      currentBuffer = buf\<rparr>"
  by (induction s arbitrary: out rule: has_opener.induct) auto

lemma concat_singletons: "concat (map (\<lambda>x. [x]) s) = s"
  by (induction s) auto

lemma scan_items:
  "output_arr (scan str st buf c out s) = out @ render_items (length c) (items st buf s) \<and>
   stored (scan str st buf c out s) = c @ map Str (tags (items st buf s))"
  by (induction str st buf c out s rule: scan.induct)
     (simp_all add: close_swig_tag_def push_full_tag_def push_single_tag_def
        escapeContent_def js_def)

lemma has_comment_opener_tl: "\<not> has_comment_opener (a # s) \<Longrightarrow> \<not> has_comment_opener s"
  by (cases s) auto

lemma items_text_pending:
  "\<not> has_comment_opener s \<Longrightarrow> st \<noteq> SWIG_COMMENT \<Longrightarrow> (st = PLAINTEXT \<longrightarrow> buf = []) \<Longrightarrow>
   concat (map item_text (items st buf s))
     @ pending (currentState (scan str st buf c out s)) (currentBuffer (scan str st buf c out s))
     = pending st buf @ s
   \<and> currentState (scan str st buf c out s) \<noteq> SWIG_COMMENT"
proof (induction str st buf c out s rule: scan.induct)
  case (3 str buf c out char nextChar rest)
  then show ?case using has_comment_opener_tl[of nextChar rest]
    by (auto simp: js_def split: if_splits)
next
  case (5 str buf c out char nextChar rest)
  then show ?case using has_comment_opener_tl[of nextChar rest]
    by (auto simp: js_def escapeContent_def split: if_splits prod.splits)
next
  case (9 str buf c out char nextChar rest)
  then show ?case using has_comment_opener_tl[of nextChar rest]
    by (auto simp: js_def escapeContent_def close_swig_tag_def push_full_tag_def
        push_single_tag_def split: if_splits prod.splits)
qed (auto simp: js_def)


text \<open>The scanner drops a comment: after it, the scan goes on as if it had not been there.\<close>

lemma scan_in_comment:
  "\<not> has_comment_closer B \<Longrightarrow>
   scan str SWIG_COMMENT buf c out (B @ js ''#}'' @ C) = scan str PLAINTEXT [] c out C"
proof (induction B)
  case Nil
  then show ?case by (simp add: js_def)
next
  case (Cons x B)
  show ?case
  proof (cases B)
    case Nil
    then show ?thesis by (simp add: js_def)
  next
    case (Cons y B')
    with Cons.prems have "\<not> (x = HASH \<and> y = RBRACE)" "\<not> has_comment_closer B"
      by auto
    with Cons.IH Cons show ?thesis by auto
  qed
qed

lemma scan_comment_dropped:
  "\<not> has_comment_closer B \<Longrightarrow>
   scan str PLAINTEXT buf c out (js ''{#'' @ B @ js ''#}'' @ C) = scan str PLAINTEXT [] c out C"
  using scan_in_comment[of B str buf c out C] by (simp add: js_def)

lemma items_lit: "Lit ch \<in> set (items st buf s) \<Longrightarrow> ch \<in> set s"
  by (induction st buf s rule: items.induct) (auto split: if_splits)

lemma items_tag: "Tag t \<in> set (items st buf s) \<Longrightarrow> t \<noteq> []"
  by (induction st buf s rule: items.induct) (auto simp: js_def split: if_splits)

section \<open>Lemmas on placeholders\<close>

lemma digits_of_ne: "digits_of n \<noteq> []"
  by (subst digits_of.simps) simp

lemma digits_of_digits: "x \<in> set (digits_of n) \<Longrightarrow> is_digit x"
proof (induction n arbitrary: x rule: digits_of.induct)
  case (1 n)
  show ?case
  proof (cases "n < 10")
    case True
    with 1(2) show ?thesis by (subst (asm) digits_of.simps) (simp add: is_digit_def)
  next
    case False
    with 1 show ?thesis
      by (subst (asm) (2) digits_of.simps) (auto simp: is_digit_def)
  qed
qed

lemma number_of_digits_of: "number_of (digits_of n) = n"
proof (induction n rule: digits_of.induct)
  case (1 n)
  show ?case
  proof (cases "n < 10")
    case True
    then show ?thesis by (subst digits_of.simps) (simp add: number_of_def)
  next
    case False
    with 1 have "number_of (digits_of (n div 10)) = n div 10" by simp
    with False show ?thesis
      by (subst digits_of.simps) (simp add: number_of_def)
  qed
qed

lemma match_placeholder_flag:
  assumes "ds \<noteq> []" "\<And>x. x \<in> set ds \<Longrightarrow> is_digit x"
  shows "match_placeholder flag (js ''<!--'' @ flag @ [OBJ] @ ds @ js ''-->'' @ X)
         = Some (ds, X)"
proof -
  let ?lit = "js ''!--'' @ flag @ [OBJ]"
  have t: "takeWhile is_digit (ds @ js ''-->'' @ X) = ds"
    using assms(2) by (simp add: js_def is_digit_def)
  have d: "dropWhile is_digit (ds @ js ''-->'' @ X) = js ''-->'' @ X"
    using assms(2) by (simp add: js_def is_digit_def)
  have s: "js ''<!--'' @ flag @ [OBJ] @ ds @ js ''-->'' @ X
           = js ''<'' @ ?lit @ (ds @ js ''-->'' @ X)"
    by (simp add: js_def)
  have s1: "strip (js ''<'') (js ''<'' @ ?lit @ (ds @ js ''-->'' @ X))
            = Some (?lit @ (ds @ js ''-->'' @ X))"
    by (simp only: strip_Some)
  have s2: "strip ?lit (?lit @ (ds @ js ''-->'' @ X)) = Some (ds @ js ''-->'' @ X)"
    by (simp only: strip_Some)
  have s3: "strip (js ''--'') (js ''-->'' @ X) = Some (js ''>'' @ X)"
    by (simp add: js_def)
  have s4: "strip (js ''>'') (js ''>'' @ X) = Some X"
    by (simp add: js_def)
  show ?thesis
    unfolding match_placeholder_def s
    by (simp only: s1 s2 t d s3 s4 assms(1) option.case if_False)
qed

lemma match_placeholder_exact:
  assumes "ds \<noteq> []" "\<And>x. x \<in> set ds \<Longrightarrow> is_digit x"
  shows "match_placeholder (js ''swig'') (js ''<!--swig'' @ [OBJ] @ ds @ js ''-->'' @ X)
         = Some (ds, X)"
  using match_placeholder_flag[OF assms, of "js ''swig''" X] by (simp add: js_def)

lemma guarded_Cons: "ch \<noteq> OBJ \<Longrightarrow> guarded X \<Longrightarrow> guarded (ch # X)"
  by (auto simp: guarded_def split: if_splits)

lemma guarded_plain: "OBJ \<notin> set X \<Longrightarrow> guarded X"
  by (simp add: guarded_def)

lemma guarded_placeholder: "guarded (js ''<!--swig'' @ [OBJ] @ Y)"
  by (simp add: guarded_def js_def)

lemma guarded_render_items:
  "\<forall>ch. Lit ch \<in> set its \<longrightarrow> ch \<noteq> OBJ \<Longrightarrow> guarded (concat (render_items n its))"
proof (induction n its rule: render_items.induct)
  case (1 n)
  then show ?case by (simp add: guarded_plain)
next
  case (2 n ch its)
  then show ?case by (simp add: guarded_Cons)
next
  case (3 n t its)
  show ?case
    using guarded_placeholder[of "digits_of n @ js ''-->'' @ concat (render_items (Suc n) its)"]
    by simp
qed

lemma match_placeholder_guarded:
  assumes "guarded X"
  shows "match_placeholder (js ''swig'') (ch # X) = None"
proof (rule ccontr)
  assume "match_placeholder (js ''swig'') (ch # X) \<noteq> None"
  then obtain index rest where
    m: "match_placeholder (js ''swig'') (ch # X) = Some (index, rest)"
    by auto
  then obtain r1 r2 where
    r1: "ch # X = js ''<'' @ r1 \<or> ch # X = js ''&lt;'' @ r1" and
    r2: "r1 = (js ''!--'' @ js ''swig'' @ [OBJ]) @ r2"
    unfolding match_placeholder_def
    by (auto split: option.splits if_splits simp: strip_Some)
  from r1 r2 have "X = js ''!--swig'' @ OBJ # r2 \<or> X = js ''lt;!--swig'' @ OBJ # r2"
    by (auto simp: js_def)
  then have "OBJ \<in> set X \<and> 60 \<notin> set (takeWhile (\<lambda>c. c \<noteq> OBJ) X)"
    by (auto simp: js_def)
  with assms show False by (simp add: guarded_def)
qed


lemma restoreContent_hit:
  assumes "n < length d" "d ! n = Str t" "t \<noteq> []"
  shows "restoreContent d (digits_of n) = (Inr t, d[n := Null])"
  using assms by (simp add: restoreContent_def array_get_def number_of_digits_of)

lemma replace_render_items:
  assumes "\<forall>ch. Lit ch \<in> set its \<longrightarrow> ch \<noteq> OBJ"
    and "\<forall>t. Tag t \<in> set its \<longrightarrow> t \<noteq> []"
    and "length pre = n"
  shows "replace_placeholders (js ''swig'') (pre @ map Str (tags its) @ post)
           (concat (render_items n its)) =
         (Inr (concat (map item_text its)),
          pre @ replicate (length (tags its)) Null @ post)"
  using assms
proof (induction n its arbitrary: pre rule: render_items.induct)
  case (1 n)
  then show ?case by simp
next
  case (2 n ch its)
  have g: "guarded (concat (render_items n its))"
    using 2(2) by (intro guarded_render_items) simp
  show ?case
    using 2 by (simp add: match_placeholder_guarded[OF g])
next
  case (3 n t its)
  let ?d = "pre @ map Str (t # tags its) @ post"
  let ?X = "concat (render_items (Suc n) its)"
  let ?ph = "js ''<!--swig'' @ [OBJ] @ digits_of n @ js ''-->'' @ ?X"
  have m: "match_placeholder (js ''swig'') ?ph = Some (digits_of n, ?X)"
    by (rule match_placeholder_exact) (simp_all add: digits_of_ne digits_of_digits)
  have ne: "?ph = 60 # tl ?ph"
    by (simp add: js_def)
  have r: "restoreContent ?d (digits_of n) = (Inr t, ?d[n := Null])"
    using 3(2,3,4) by (intro restoreContent_hit) (auto simp: nth_append)
  have d': "?d[n := Null] = (pre @ [Null]) @ map Str (tags its) @ post"
    using 3(4) by (simp add: list_update_append)
  have ih: "replace_placeholders (js ''swig'') ((pre @ [Null]) @ map Str (tags its) @ post) ?X =
         (Inr (concat (map item_text its)),
          (pre @ [Null]) @ replicate (length (tags its)) Null @ post)"
    using 3 by (intro 3(1)) auto
  have "replace_placeholders (js ''swig'') ?d ?ph =
      (Inr (t @ concat (map item_text its)),
       (pre @ [Null]) @ replicate (length (tags its)) Null @ post)"
    apply (subst ne)
    apply (subst replace_placeholders.simps)
    apply (subst ne[symmetric])
    apply (simp only: m option.case prod.case r d' ih sum.case)
    done
  then show ?case by (simp add: replicate_app_Cons_same)
qed

lemma replace_one_placeholder:
  assumes "ds \<noteq> []" "\<And>x. x \<in> set ds \<Longrightarrow> is_digit x"
  shows "replace_placeholders flag c (js ''<!--'' @ flag @ [OBJ] @ ds @ js ''-->'') =
         restoreContent c ds"
proof -
  let ?ph = "js ''<!--'' @ flag @ [OBJ] @ ds @ js ''-->''"
  have m: "match_placeholder flag ?ph = Some (ds, [])"
    using match_placeholder_flag[OF assms, of flag "[]"] by simp
  have ne: "?ph = 60 # tl ?ph"
    by (simp add: js_def)
  have "replace_placeholders flag c (60 # tl ?ph) =
      (case restoreContent c ds of
         (Inl e, c') \<Rightarrow> (Inl e, c')
       | (Inr v, c') \<Rightarrow>
           (case replace_placeholders flag c' [] of
              (Inr r, c'') \<Rightarrow> (Inr (v @ r), c'')
            | (Inl e, c'') \<Rightarrow> (Inl e, c'')))"
    apply (subst replace_placeholders.simps(2))
    apply (subst ne[symmetric])
    apply (simp only: m option.case prod.case)
    done
  also have "\<dots> = restoreContent c ds"
    by (simp split: prod.splits sum.splits)
  finally show ?thesis using arg_cong[OF ne, of "replace_placeholders flag c"] by simp
qed

lemma restoreContent_miss:
  "\<not> (digits_of (number_of index) = index \<and> number_of index < length c) \<Longrightarrow>
   restoreContent c index = (Inl AssertionError, c)"
  by (auto simp: restoreContent_def array_get_def)

lemma restoreContent_twice:
  assumes "restoreContent c index = (Inr v, c')"
  shows "v \<noteq> [] \<and> c' = c[number_of index := Null] \<and> number_of index < length c \<and>
         restoreContent c' index = (Inl AssertionError, c')"
  using assms
  by (auto simp: restoreContent_def array_get_def split: jsval.splits if_splits)

lemma restoreContent_error:
  "fst (restoreContent c index) = Inl e \<Longrightarrow> e = AssertionError"
  by (auto simp: restoreContent_def array_get_def split: jsval.splits if_splits)

lemma digits_of_small: "n < 10 \<Longrightarrow> digits_of n = [48 + n]"
  by (subst digits_of.simps) simp

text \<open>The equations that evaluate the functions on a concrete text.\<close>

lemmas eval_escape = js_def escapeAllSwigTags_def alt_braces_def alt_comment_def alt_block_def
  escapeContent_def digits_of_small close_swig_tag_def push_full_tag_def push_single_tag_def
  tags_closed_def

lemmas eval_restore = js_def restoreAllSwigTags_def restoreCodeBlocks_def match_placeholder_def
  is_digit_def restoreContent_def array_get_def number_of_def digits_of_small

section \<open>Lemmas on front matter, publishing and rendering\<close>

lemma str_includes_char: "str_includes s [c] \<longleftrightarrow> c \<in> set s"
  by (induction s) auto

lemma startsWith_1: "startsWith s [a] \<longleftrightarrow> take 1 s = [a]"
  by (simp add: startsWith_def)

lemma startsWith_2: "startsWith s [a, b] \<longleftrightarrow> take 2 s = [a, b]"
  unfolding startsWith_def by (simp only: numeral_2_eq_2 length_Cons list.size)

lemma prepare_string:
  "prepare_item fm fd jsonMode (IsString s) =
     IsString (if jsonMode \<or> set s \<inter> {58, 123, 125, 91, 93, 39, 34} \<noteq> {}
                  \<or> take 1 s = [35] \<or> take 2 s = [33, 33]
               then [34] @ concat (map (\<lambda>ch. if ch = 34 then [92, 34] else [ch]) s) @ [34]
               else s)"
proof -
  have j: "js ''#'' = [35]" "js ''!!'' = [33, 33]" "js '':'' = [58]" "js ''{'' = [123]"
    "js ''}'' = [125]" "js ''['' = [91]" "js '']'' = [93]"
    by (simp_all add: js_def)
  show ?thesis
    unfolding prepare_item.simps j str_includes_char startsWith_1 startsWith_2 escape_quotes_def
    by auto
qed

lemma double_quoted_escape_quotes:
  "list_all (\<lambda>ch. ch \<noteq> 92 \<and> (ch = 9 \<or> 32 \<le> ch)) s \<Longrightarrow>
   double_quoted acc (escape_quotes s @ [DQUOTE]) = Scalar (acc @ s)"
proof (induction s arbitrary: acc)
  case Nil
  then show ?case by (simp add: escape_quotes_def)
next
  case (Cons ch s)
  obtain x xs where x: "escape_quotes s @ [DQUOTE] = x # xs"
    by (cases "escape_quotes s @ [DQUOTE]") auto
  have e: "escape_quotes (ch # s) @ [DQUOTE]
      = (if ch = DQUOTE then [92, DQUOTE] else [ch]) @ (x # xs)"
    using x by (simp add: escape_quotes_def)
  have ih: "double_quoted (acc @ [ch]) (x # xs) = Scalar (acc @ ch # s)"
    using Cons.IH[of "acc @ [ch]"] Cons.prems unfolding x by simp
  show ?case
  proof (cases "ch = DQUOTE")
    case True
    then show ?thesis
      using ih unfolding e by (simp add: is_EOL_def simple_escape_def)
  next
    case False
    then show ?thesis
      using ih Cons.prems unfolding e by (auto simp: is_EOL_def)
  qed
qed

lemma merge_metadata_key_order:
  "merge_metadata (\<lambda>k. IsNullish)
     [(js ''1'', IsString (js ''x'') :: (unit, unit) field), (js ''title'', IsString (js ''T'')),
      (js ''tags'', IsString (js ''y''))]
     [(js ''date'', IsString (js ''d''))] =
   [(js ''1'', IsString (js ''x'')), (js ''date'', IsString (js ''d'')),
    (js ''tags'', IsString (js ''y''))]"
  by (simp add: merge_metadata_def get_prop_def preservedKeys_def js_def set_prop_def
      is_index_def is_digit_def number_of_def digits_of_small)

lemma map_of_overwrite:
  "map_of obj key = Some w \<Longrightarrow> map_of (overwrite key v obj) = (map_of obj)(key \<mapsto> v)"
  by (induction obj) (auto simp: fun_eq_iff)

lemma map_of_insert_index:
  "map_of obj key = None \<Longrightarrow> map_of (insert_index key v obj) = (map_of obj)(key \<mapsto> v)"
  by (induction obj) (auto simp: fun_eq_iff split: if_splits)

lemma map_of_append_new:
  "map_of obj key = None \<Longrightarrow> map_of (obj @ [(key, v)]) = (map_of obj)(key \<mapsto> v)"
  by (induction obj) (auto simp: fun_eq_iff split: if_splits)

lemma map_of_set_prop: "map_of (set_prop key v obj) = (map_of obj)(key \<mapsto> v)"
proof (cases "map_of obj key")
  case None
  show ?thesis
  proof (cases "is_index key")
    case True
    with None show ?thesis
      by (simp only: set_prop_def option.case if_True map_of_insert_index)
  next
    case False
    with None show ?thesis
      by (simp only: set_prop_def option.case if_False map_of_append_new)
  qed
next
  case (Some w)
  then show ?thesis
    by (simp only: set_prop_def option.case map_of_overwrite)
qed

text \<open>The equations that evaluate \<open>set_prop\<close> on a concrete object.\<close>

lemmas eval_set_prop = set_prop_def is_index_def is_digit_def

lemma map_of_foldl_set_prop:
  "key \<notin> set ks \<Longrightarrow> map_of (foldl (\<lambda>ob k. set_prop k (f k) ob) obj ks) key = map_of obj key"
  by (induction ks arbitrary: obj) (auto simp: map_of_set_prop)

lemma get_prop_set_prop:
  "get_prop p (set_prop k v d) k' = (if k' = k then v else get_prop p d k')"
  by (simp add: get_prop_def map_of_set_prop)

lemma str_includes_append: "str_includes (a @ b @ c) b"
proof (induction a)
  case Nil
  show ?case
  proof (cases "b @ c")
    case Nil
    then show ?thesis by simp
  next
    case (Cons x xs)
    have "take (length b) (b @ c) = b" by simp
    with Cons show ?thesis by simp
  qed
next
  case (Cons x a)
  then show ?case by simp
qed

lemma find_draft_none:
  "\<forall>item \<in> set entries. \<not> startsWith item slug \<Longrightarrow> find (draft_regex_test slug) entries = None"
  by (auto simp: find_None_iff draft_regex_test_def startsWith_def)

lemma restoreContent_errors:
  "restoreContent c index = (Inl err, c') \<Longrightarrow> err = AssertionError"
  by (auto simp: restoreContent_def split: jsval.splits if_splits)

lemma replace_placeholders_errors:
  "replace_placeholders flag c s = (Inl err, c') \<Longrightarrow> err = AssertionError"
proof (induction flag c s arbitrary: c' rule: replace_placeholders.induct)
  case (1 flag c)
  then show ?case by simp
next
  case (2 flag c x xs)
  then show ?case
    by (auto split: option.splits prod.splits sum.splits dest: restoreContent_errors)
qed

lemma collaborator_no_Error: "collaborator r \<noteq> Inl (Error m)"
  by (simp add: collaborator_def split: sum.split)

lemma onRenderEnd_no_Error: "fst (onRenderEnd e dn c data content) \<noteq> Inl (Error m)"
  using replace_placeholders_errors[of "js ''swig''" c content "Error m"]
  by (auto simp: onRenderEnd_def restoreAllSwigTags_def collaborator_no_Error
      split: prod.split sum.split)

lemma render_with_callback_no_Error:
  "fst (render_with_callback e w source dn c data content options) \<noteq> Inl (Error m)"
proof (cases "render_text e w content source (rd_engine data) (Some options)")
  case (Inl err)
  then show ?thesis by (simp add: render_with_callback_def)
next
  case (Inr mid)
  obtain r c' d' where o: "onRenderEnd e dn c data mid = (r, c', d')"
    by (cases "onRenderEnd e dn c data mid") auto
  with onRenderEnd_no_Error[of e dn c data mid m] have "r \<noteq> Inl (Error m)" by simp
  with Inr o show ?thesis
    by (cases r) (simp_all add: render_with_callback_def collaborator_no_Error)
qed

lemma after_render_no_Error: "after_render e w c data content \<noteq> Inl (Error m)"
  using replace_placeholders_errors[of "js ''code''" c content "Error m"]
  by (auto simp: after_render_def restoreCodeBlocks_def collaborator_no_Error
      split: prod.split sum.split)

lemma render_post_no_Error: "render_post e w source dn data content \<noteq> Inl (Error m)"
proof (cases "before_post_render e w (data\<lparr>rd_content := Some content\<rparr>)")
  case (Inl err)
  then show ?thesis by (simp add: render_post_def)
next
  case (Inr d1)
  show ?thesis
  proof (cases "rd_content d1")
    case None
    with Inr show ?thesis by (simp add: render_post_def)
  next
    case (Some body)
    obtain escaped c where es: "escape_stage dn body = (escaped, c)"
      by (cases "escape_stage dn body") auto
    let ?d = "d1\<lparr>rd_content := Some escaped,
                 rd_markdown := map_option (\<lambda>m. render_options e d1) (rd_markdown d1)\<rparr>"
    obtain r c' d2 where
      rc: "render_with_callback e w source dn c ?d escaped (render_options e d1) = (r, c', d2)"
      by (cases "render_with_callback e w source dn c ?d escaped (render_options e d1)") auto
    with render_with_callback_no_Error[of e w source dn c ?d escaped "render_options e d1" m]
    have "r \<noteq> Inl (Error m)" by simp
    with Inr Some es rc show ?thesis
      by (cases r) (simp_all add: render_post_def after_render_no_Error)
  qed
qed

lemma render_asset_no_Error: "render_asset e w source data content \<noteq> Inl (Error m)"
  by (simp add: render_asset_def split: sum.split)

text \<open>With \<open>data.content\<close> there, \<open>render\<close> does not depend on \<open>readFile\<close>.\<close>

lemma render_inline_content:
  assumes "rd_content data = Some content"
  shows "render (e\<lparr>r_readFile := f\<rparr>) w source data = render e w source data"
proof -
  have p: "render_promise (e\<lparr>r_readFile := f\<rparr>) w source data = Inr content"
    "render_promise e w source data = Inr content"
    using assms by (simp_all add: render_promise_def)
  have a: "\<And>c. render_asset (e\<lparr>r_readFile := f\<rparr>) w source data c
      = render_asset e w source data c"
    by (simp add: render_asset_def split: sum.split prod.split option.split)
  have o: "\<And>dn c d m. onRenderEnd (e\<lparr>r_readFile := f\<rparr>) dn c d m = onRenderEnd e dn c d m"
    by (simp add: onRenderEnd_def split: sum.split prod.split option.split)
  have ro: "\<And>d. render_options (e\<lparr>r_readFile := f\<rparr>) d = render_options e d"
    by (simp add: render_options_def split: option.split)
  have rc: "\<And>dn c d t opts.
      render_with_callback (e\<lparr>r_readFile := f\<rparr>) w source dn c d t opts
      = render_with_callback e w source dn c d t opts"
    by (simp add: render_with_callback_def o split: sum.split prod.split option.split)
  have ar: "\<And>c d t. after_render (e\<lparr>r_readFile := f\<rparr>) w c d t = after_render e w c d t"
    by (simp add: after_render_def split: sum.split prod.split option.split)
  have rp: "\<And>dn c. render_post (e\<lparr>r_readFile := f\<rparr>) w source dn data c
      = render_post e w source dn data c"
    by (simp add: render_post_def rc ar ro split: sum.split prod.split option.split)
  have dn: "render_disableNunjucks (e\<lparr>r_readFile := f\<rparr>) source data
      = render_disableNunjucks e source data"
    by (simp add: render_disableNunjucks_def render_ext_def split: option.split)
  have ip: "isPost (e\<lparr>r_readFile := f\<rparr>) data = isPost e data"
    by (simp add: isPost_def)
  show ?thesis
    by (simp add: render_def p a rp dn ip)
qed

section \<open>Claims on the scanner\<close>

text \<open>
  C3. A text with no templating syntax (no opener \<open>{{\<close>, \<open>{#\<close> or \<open>{%\<close>) comes back
  from \<open>escapeAllSwigTags\<close> unchanged, and the escape table is as it was: no
  placeholder is introduced.
\<close>

theorem escapeAllSwigTags_plain:
  "\<not> has_opener T \<Longrightarrow> escapeAllSwigTags c T = (T, c)"
  by (simp add: escapeAllSwigTags_def scan_plain concat_singletons)

theorem escapeAllSwigTags_plain_witness:
  "\<not> has_opener (js ''a {b} c'') \<and>
   escapeAllSwigTags [Str (js ''x'')] (js ''a {b} c'') = (js ''a {b} c'', [Str (js ''x'')])"
  using escapeAllSwigTags_plain [of "js ''a {b} c''" "[Str (js ''x'')]"]
  by (simp add: js_def)

text \<open>
  C8. When the scanner closes a block tag, what it does when the text holds
  \<open>end<tagname>\<close> (\<open>isFullTag\<close>) is what it does when the text does not: in both
  cases the buffered text, wrapped again as \<open>{%\<dots>%}\<close>, goes to the end of the table
  and the \<open>swig\<close> placeholder with its index is pushed. So the two branches are equal,
  the step of the scanner at \<open>%}\<close> is this one escape whatever the text is, and the
  whole scan does not depend on the text that \<open>isFullTag\<close> is looked up in.
\<close>

theorem isFullTag_no_effect:
  "close_swig_tag isFullTag out c buf =
     (out @ [js ''<!--swig'' @ [OBJ] @ digits_of (length c) @ js ''-->''],
      c @ [Str (js ''{%'' @ buf @ js ''%}'')]) \<and>
   push_full_tag out c buf = push_single_tag out c buf \<and>
   close_swig_tag True out c buf = close_swig_tag False out c buf \<and>
   scan str SWIG_TAG buf c out (js ''%}'' @ rest) =
     scan str PLAINTEXT []
       (c @ [Str (js ''{%'' @ buf @ js ''%}'')])
       (out @ [js ''<!--swig'' @ [OBJ] @ digits_of (length c) @ js ''-->'']) rest \<and>
   scan str st buf c out s = scan str' st buf c out s"
proof -
  have k: "close_swig_tag isFullTag out c buf =
     (out @ [js ''<!--swig'' @ [OBJ] @ digits_of (length c) @ js ''-->''],
      c @ [Str (js ''{%'' @ buf @ js ''%}'')])" for isFullTag
    by (simp add: close_swig_tag_def push_full_tag_def push_single_tag_def escapeContent_def
        js_def)
  have "scan str SWIG_TAG buf c out (js ''%}'' @ rest) =
     scan str PLAINTEXT []
       (c @ [Str (js ''{%'' @ buf @ js ''%}'')])
       (out @ [js ''<!--swig'' @ [OBJ] @ digits_of (length c) @ js ''-->'']) rest"
    using k[of "str_includes str (js ''end'' @ buf)"] by (simp add: js_def)
  then show ?thesis
    using scan_whole_text [of str st buf c out s str'] k
    by (simp add: push_full_tag_def push_single_tag_def)
qed

text \<open>
  C10. When a text with no U+FFFC and no comment opener passes the pre-check and the
  scanner ends inside a variable or block tag (the tag is not closed),
  \<open>escapeAllSwigTags\<close> followed by \<open>restoreAllSwigTags\<close> gives the text without its
  end: what is lost starts with the opener \<open>{{\<close> or \<open>{%\<close> of the unclosed tag and
  runs to the end of the text. So the function is lossy; \<open>{a} {{x\<close>, which passes the
  pre-check by \<open>{a}\<close>, comes back as \<open>{a} \<close>.
\<close>

theorem unclosed_tag_lost:
  assumes "OBJ \<notin> set T" and "\<not> has_comment_opener T" and "swigTagRegex_test T"
    and "\<not> tags_closed T"
  shows "\<exists>restored dropped.
           restoreAllSwigTags (snd (escapeAllSwigTags c T)) (fst (escapeAllSwigTags c T))
             = (Inr restored, c @ replicate (length (snd (escapeAllSwigTags c T)) - length c) Null)
           \<and> T = restored @ dropped \<and> restored \<noteq> T
           \<and> (take 2 dropped = js ''{{'' \<or> take 2 dropped = js ''{%'')"
proof -
  let ?its = "items PLAINTEXT [] T"
  let ?l = "scan T PLAINTEXT [] c [] T"
  let ?dropped = "pending (currentState ?l) (currentBuffer ?l)"
  have e: "escapeAllSwigTags c T =
      (concat (render_items (length c) ?its), c @ map Str (tags ?its))"
    using assms(3) by (simp add: escapeAllSwigTags_def scan_items)
  have lit: "\<forall>ch. Lit ch \<in> set ?its \<longrightarrow> ch \<noteq> OBJ"
    using assms(1) items_lit by blast
  have tg: "\<forall>t. Tag t \<in> set ?its \<longrightarrow> t \<noteq> []"
    using items_tag by blast
  have st: "currentState ?l \<noteq> PLAINTEXT"
    using assms(4) scan_state_only[of T PLAINTEXT "[]" c "[]" T T "[]" "[]"]
    by (simp add: tags_closed_def)
  have tx: "concat (map item_text ?its) @ ?dropped = T" and nc: "currentState ?l \<noteq> SWIG_COMMENT"
    using items_text_pending[OF assms(2), of PLAINTEXT "[]" T c "[]"] by simp_all
  have d: "take 2 ?dropped = js ''{{'' \<or> take 2 ?dropped = js ''{%''"
    using st nc by (cases "currentState ?l") (simp_all add: js_def)
  then have "?dropped \<noteq> []" by (auto simp: js_def)
  with tx have ne: "concat (map item_text ?its) \<noteq> T"
    by (metis append_self_conv)
  have "replace_placeholders (js ''swig'') (c @ map Str (tags ?its) @ [])
          (concat (render_items (length c) ?its)) =
        (Inr (concat (map item_text ?its)), c @ replicate (length (tags ?its)) Null @ [])"
    using lit tg by (intro replace_render_items) simp_all
  then have "restoreAllSwigTags (snd (escapeAllSwigTags c T)) (fst (escapeAllSwigTags c T))
             = (Inr (concat (map item_text ?its)),
                c @ replicate (length (snd (escapeAllSwigTags c T)) - length c) Null)"
    by (simp add: e restoreAllSwigTags_def)
  with tx ne d show ?thesis
    by (metis (no_types))
qed

theorem unclosed_tag_lost_witness:
  "OBJ \<notin> set (js ''{a} {{x'') \<and> \<not> has_comment_opener (js ''{a} {{x'') \<and>
   swigTagRegex_test (js ''{a} {{x'') \<and> \<not> tags_closed (js ''{a} {{x'') \<and>
   escapeAllSwigTags [] (js ''{a} {{x'') = (js ''{a} '', []) \<and>
   restoreAllSwigTags [] (js ''{a} '') = (Inr (js ''{a} ''), []) \<and>
   js ''{a} {{x'' = js ''{a} '' @ js ''{{x''"
proof -
  have h: "OBJ \<notin> set (js ''{a} {{x'')" "\<not> has_comment_opener (js ''{a} {{x'')"
    "swigTagRegex_test (js ''{a} {{x'')" "\<not> tags_closed (js ''{a} {{x'')"
    by (simp_all add: eval_escape)
  have e: "escapeAllSwigTags [] (js ''{a} {{x'') = (js ''{a} '', [])"
    by (simp add: eval_escape)
  have r: "restoreAllSwigTags [] (js ''{a} '') = (Inr (js ''{a} ''), [])"
    by (simp add: eval_restore)
  from unclosed_tag_lost [OF h, of "[]"] h e r show ?thesis
    by (simp add: js_def)
qed

lemma unclosed_block_tag_example:
  "swigTagRegex_test (js ''{a} {%x'') \<and>
   escapeAllSwigTags c (js ''{a} {%x'') = (js ''{a} '', c) \<and>
   restoreAllSwigTags c (js ''{a} '') = (Inr (js ''{a} ''), c)"
  by (simp add: eval_escape eval_restore)




text \<open>
  C2. Restoring never gives empty text and fails only with the assertion error:
  a placeholder whose index is out of the table's range (never produced by an escape
  call), or is not the canonical numeral of a position, fails with \<open>AssertionError\<close>
  and leaves the table as it was; after an index was restored, restoring it again
  fails with \<open>AssertionError\<close>. This holds of the callback \<open>restoreContent\<close> and of
  \<open>restoreAllSwigTags\<close> and \<open>restoreCodeBlocks\<close> on the placeholder's text.
\<close>

theorem restore_fails_loudly:
  "(length c \<le> n \<longrightarrow>
      restoreContent c (digits_of n) = (Inl AssertionError, c) \<and>
      restoreAllSwigTags c (js ''<!--swig'' @ [OBJ] @ digits_of n @ js ''-->'')
        = (Inl AssertionError, c) \<and>
      restoreCodeBlocks c (js ''<!--code'' @ [OBJ] @ digits_of n @ js ''-->'')
        = (Inl AssertionError, c)) \<and>
   (digits_of (number_of index) \<noteq> index \<longrightarrow>
      restoreContent c index = (Inl AssertionError, c)) \<and>
   (restoreContent c index = (Inr v, c') \<longrightarrow>
      v \<noteq> [] \<and> restoreContent c' index = (Inl AssertionError, c')) \<and>
   (restoreAllSwigTags c (js ''<!--swig'' @ [OBJ] @ digits_of n @ js ''-->'') = (Inr v, c') \<longrightarrow>
      v \<noteq> [] \<and>
      restoreAllSwigTags c' (js ''<!--swig'' @ [OBJ] @ digits_of n @ js ''-->'')
        = (Inl AssertionError, c')) \<and>
   (fst (restoreContent c index) = Inl e \<longrightarrow> e = AssertionError)"
proof -
  have sw: "\<And>d. restoreAllSwigTags d (js ''<!--swig'' @ [OBJ] @ digits_of n @ js ''-->'')
      = restoreContent d (digits_of n)"
    using replace_one_placeholder[of "digits_of n" "js ''swig''"]
    by (simp add: restoreAllSwigTags_def digits_of_ne digits_of_digits js_def)
  have cd: "\<And>d. restoreCodeBlocks d (js ''<!--code'' @ [OBJ] @ digits_of n @ js ''-->'')
      = restoreContent d (digits_of n)"
    using replace_one_placeholder[of "digits_of n" "js ''code''"]
    by (simp add: restoreCodeBlocks_def digits_of_ne digits_of_digits js_def)
  have 1: "length c \<le> n \<Longrightarrow> restoreContent c (digits_of n) = (Inl AssertionError, c)"
    by (rule restoreContent_miss) (simp add: number_of_digits_of)
  have 2: "digits_of (number_of index) \<noteq> index \<Longrightarrow>
      restoreContent c index = (Inl AssertionError, c)"
    by (rule restoreContent_miss) simp
  have 3: "restoreContent c index = (Inr v, c') \<Longrightarrow>
      v \<noteq> [] \<and> restoreContent c' index = (Inl AssertionError, c')"
    using restoreContent_twice[of c index v c'] by blast
  have 4: "restoreContent c (digits_of n) = (Inr v, c') \<Longrightarrow>
      v \<noteq> [] \<and> restoreContent c' (digits_of n) = (Inl AssertionError, c')"
    using restoreContent_twice[of c "digits_of n" v c'] by blast
  have 5: "fst (restoreContent c index) = Inl e \<Longrightarrow> e = AssertionError"
    by (rule restoreContent_error)
  show ?thesis
    unfolding sw cd using 1 2 3 4 5 by blast
qed

theorem restore_fails_loudly_witness:
  "restoreContent [Str (js ''{{x}}'')] (js ''1'') = (Inl AssertionError, [Str (js ''{{x}}'')]) \<and>
   restoreAllSwigTags [Str (js ''{{x}}'')] (js ''<!--swig'' @ [OBJ] @ js ''1-->'')
     = (Inl AssertionError, [Str (js ''{{x}}'')]) \<and>
   restoreContent [Str (js ''{{x}}'')] (js ''00'') = (Inl AssertionError, [Str (js ''{{x}}'')]) \<and>
   restoreContent [Str (js ''{{x}}'')] (js ''0'') = (Inr (js ''{{x}}''), [Null]) \<and>
   restoreContent [Null] (js ''0'') = (Inl AssertionError, [Null]) \<and>
   restoreAllSwigTags [Str (js ''{{x}}'')] (js ''<!--swig'' @ [OBJ] @ js ''0-->'')
     = (Inr (js ''{{x}}''), [Null]) \<and>
   restoreAllSwigTags [Null] (js ''<!--swig'' @ [OBJ] @ js ''0-->'') = (Inl AssertionError, [Null])"
proof -
  have d0: "digits_of 0 = [48]" and d1: "digits_of (Suc 0) = [49]"
    by (simp_all add: digits_of_small)
  have ok: "restoreContent [Str (js ''{{x}}'')] (js ''0'') = (Inr (js ''{{x}}''), [Null])"
    and ok2: "restoreAllSwigTags [Str (js ''{{x}}'')] (js ''<!--swig'' @ [OBJ] @ js ''0-->'')
     = (Inr (js ''{{x}}''), [Null])"
    and nc: "digits_of (number_of (js ''00'')) \<noteq> js ''00''"
    by (simp_all add: eval_restore)
  show ?thesis
    using restore_fails_loudly [of "[Str (js ''{{x}}'')]" 1 "js ''00''" "js ''{{x}}''" "[Null]" AssertionError]
      restore_fails_loudly [of "[Str (js ''{{x}}'')]" 0 "js ''0''" "js ''{{x}}''" "[Null]" AssertionError]
      ok ok2 nc
    by (simp add: d0 d1 js_def)
qed

text \<open>
  C4. A comment tag \<open>{# c #}\<close> is to be absent from the output of
  \<open>escapeAllSwigTags\<close>, with no table entry, and not to come back on restoring. The
  scanner does that whenever it runs (\<open>scan_comment_dropped\<close> above). At the text
  \<open>{# a # {} #}\<close>, a comment tag, it does not run: no alternative of the pre-check
  matches, so \<open>escapeAllSwigTags\<close> returns the text with the comment in it and
  restoring keeps it, while the scanner's loop on the same text pushes nothing.
\<close>

theorem comment_kept:
  "\<not> swigTagRegex_test (js ''{# a # {} #}'') \<and>
   escapeAllSwigTags c (js ''{# a # {} #}'') = (js ''{# a # {} #}'', c) \<and>
   restoreAllSwigTags c (js ''{# a # {} #}'') = (Inr (js ''{# a # {} #}''), c) \<and>
   concat (output_arr (scan (js ''{# a # {} #}'') PLAINTEXT [] c [] (js ''{# a # {} #}''))) = []"
  by (simp add: eval_escape eval_restore)

section \<open>Claims on front matter, publishing and rendering\<close>

text \<open>
  C5 (as amended). In \<open>prepareFrontMatter\<close> a plain string value is wrapped in double
  quotes, each double quote inside it preceded by a backslash, in JSON mode always, and
  in YAML mode exactly when it holds one of \<open>: { } [ ] ' "\<close> anywhere, or starts with
  \<open>#\<close>, or starts with \<open>!!\<close>; every other string stays as it is. The quoted text of a
  value that holds no backslash and no control character other than TAB reparses, as a
  YAML value, to the original string. So \<open>Hello: World\<close> is quoted in YAML mode and
  reparses to \<open>Hello: World\<close>.

  The claim as written says more, and the counterexample shows where it fails. A \<open>#\<close>
  or \<open>!\<close> inside the string, or a single leading \<open>!\<close>, does not make it quoted:
  \<open>a#b\<close> and \<open>!a\<close> stay unchanged. And a value with a colon need not reparse to
  itself: the path \<open>C:\<close>, backslash, \<open>temp\<close> is quoted with its backslash as it is, and
  the backslash with the \<open>t\<close> after it reparses to a TAB; \<open>a:\<close>, backslash, \<open>q\<close> and
  a value with the control character BEL do not reparse at all.
\<close>

theorem prepareFrontMatter_quotes:
  assumes "(key, IsString s) \<in> set data"
  shows "(key, IsString (if jsonMode \<or> set s \<inter> (set (js '':{}[]'') \<union> {39, DQUOTE}) \<noteq> {}
                  \<or> take 1 s = js ''#'' \<or> take 2 s = js ''!!''
               then [DQUOTE] @ concat (map (\<lambda>ch. if ch = DQUOTE then [92, DQUOTE] else [ch]) s)
                    @ [DQUOTE]
               else s))
         \<in> set (prepareFrontMatter fmt_moment fmt_date data jsonMode) \<and>
         (list_all (\<lambda>ch. ch \<noteq> 92 \<and> (ch = 9 \<or> 32 \<le> ch)) s \<longrightarrow>
            yaml_value ([DQUOTE] @ concat (map (\<lambda>ch. if ch = DQUOTE then [92, DQUOTE] else [ch]) s)
                        @ [DQUOTE]) = Scalar s)"
proof -
  have "(key, prepare_item fmt_moment fmt_date jsonMode (IsString s))
        \<in> set (prepareFrontMatter fmt_moment fmt_date data jsonMode)"
    using assms by (force simp: prepareFrontMatter_def)
  moreover have "set (js '':{}[]'') \<union> {39, DQUOTE} = {58, 123, 125, 91, 93, 39, 34}"
    by (auto simp: js_def)
  ultimately have q: "(key, IsString (if jsonMode \<or> set s \<inter> (set (js '':{}[]'') \<union> {39, DQUOTE}) \<noteq> {}
                  \<or> take 1 s = js ''#'' \<or> take 2 s = js ''!!''
               then [DQUOTE] @ concat (map (\<lambda>ch. if ch = DQUOTE then [92, DQUOTE] else [ch]) s)
                    @ [DQUOTE]
               else s))
         \<in> set (prepareFrontMatter fmt_moment fmt_date data jsonMode)"
    by (simp only: prepare_string) (simp add: js_def)
  have "yaml_value ([DQUOTE] @ escape_quotes s @ [DQUOTE]) = Scalar s"
    if "list_all (\<lambda>ch. ch \<noteq> 92 \<and> (ch = 9 \<or> 32 \<le> ch)) s"
    using double_quoted_escape_quotes[OF that, of "[]"] by (simp add: yaml_value_def)
  with q show ?thesis
    by (simp add: escape_quotes_def)
qed

theorem prepareFrontMatter_quotes_witness:
  "(js ''title'', IsString ([34] @ js ''Hello: World'' @ [34]))
     \<in> set (prepareFrontMatter (\<lambda>t::unit. []) (\<lambda>t. [])
          [(js ''title'', IsString (js ''Hello: World'') :: (unit, unit) field)] False) \<and>
   yaml_value ([34] @ js ''Hello: World'' @ [34]) = Scalar (js ''Hello: World'')"
  using prepareFrontMatter_quotes [of "js ''title''" "js ''Hello: World''"
      "[(js ''title'', IsString (js ''Hello: World'') :: (unit, unit) field)]" False
      "\<lambda>t::unit. []" "\<lambda>t::unit. []"]
  by (simp add: js_def)

theorem prepareFrontMatter_counterexample:
  "35 \<in> set (js ''a#b'') \<and> 33 \<in> set (js ''!a'') \<and>
   prepareFrontMatter (\<lambda>t::unit. []) (\<lambda>t. [])
     [(js ''title'', IsString (js ''a#b'') :: (unit, unit) field),
      (js ''note'', IsString (js ''!a''))] False =
     [(js ''title'', IsString (js ''a#b'')), (js ''note'', IsString (js ''!a''))] \<and>
   58 \<in> set (js ''C:'' @ [92] @ js ''temp'') \<and>
   prepareFrontMatter (\<lambda>t::unit. []) (\<lambda>t. [])
     [(js ''dir'', IsString (js ''C:'' @ [92] @ js ''temp'') :: (unit, unit) field),
      (js ''re'', IsString (js ''a:'' @ [92] @ js ''q'')),
      (js ''bell'', IsString (js ''a:'' @ [7]))] False =
     [(js ''dir'', IsString ([34] @ js ''C:'' @ [92] @ js ''temp'' @ [34])),
      (js ''re'', IsString ([34] @ js ''a:'' @ [92] @ js ''q'' @ [34])),
      (js ''bell'', IsString ([34] @ js ''a:'' @ [7] @ [34]))] \<and>
   yaml_value ([34] @ js ''C:'' @ [92] @ js ''temp'' @ [34]) = Scalar (js ''C:'' @ [9] @ js ''emp'') \<and>
   js ''C:'' @ [9] @ js ''emp'' \<noteq> js ''C:'' @ [92] @ js ''temp'' \<and>
   yaml_value ([34] @ js ''a:'' @ [92] @ js ''q'' @ [34]) = YAMLException \<and>
   yaml_value ([34] @ js ''a:'' @ [7] @ [34]) = YAMLException"
  by (simp add: js_def prepareFrontMatter_def startsWith_def escape_quotes_def yaml_value_def
      is_EOL_def simple_escape_def)

text \<open>
  C6. The merge step never writes a reserved key (\<open>title\<close>, \<open>slug\<close>, \<open>path\<close>,
  \<open>layout\<close>, \<open>date\<close>, \<open>content\<close>): in the merged object a reserved key has the value
  the parsed scaffold gave it, and is a key of the merged object only when it was a key
  of the parsed scaffold, whatever the caller's metadata holds.
\<close>

theorem reserved_keys_not_merged:
  assumes "key \<in> set preservedKeys"
  shows "map_of (merge_metadata pr data obj) key = map_of obj key \<and>
         (key \<in> fst ` set (merge_metadata pr data obj) \<longleftrightarrow> key \<in> fst ` set obj)"
proof -
  have m: "map_of (merge_metadata pr data obj) key = map_of obj key"
    unfolding merge_metadata_def
    using assms by (intro map_of_foldl_set_prop) simp
  then show ?thesis
    by (metis domIff dom_map_of_conv_image_fst)
qed

theorem reserved_keys_not_merged_witness:
  "js ''title'' \<in> set preservedKeys \<and>
   merge_metadata (\<lambda>k. IsNullish)
     [(js ''title'', IsString (js ''T'') :: (unit, unit) field), (js ''tags'', IsString (js ''x''))]
     [(js ''date'', IsString (js ''d''))] =
     [(js ''date'', IsString (js ''d'')), (js ''tags'', IsString (js ''x''))] \<and>
   map_of (merge_metadata (\<lambda>k. IsNullish)
     [(js ''title'', IsString (js ''T'') :: (unit, unit) field), (js ''tags'', IsString (js ''x''))]
     [(js ''date'', IsString (js ''d''))]) (js ''title'') = None"
proof -
  have k: "js ''title'' \<in> set preservedKeys"
    by (simp add: preservedKeys_def)
  show ?thesis
    using reserved_keys_not_merged [OF k, of "\<lambda>k. IsNullish"
        "[(js ''title'', IsString (js ''T'') :: (unit, unit) field), (js ''tags'', IsString (js ''x''))]"
        "[(js ''date'', IsString (js ''d''))]"] k
    by (simp add: merge_metadata_def get_prop_def preservedKeys_def js_def eval_set_prop)
qed

text \<open>
  C7. When the metadata has a string slug \<open>s\<close> (and a layout that is a string or
  absent), the listing of the drafts directory succeeds and no entry starts with the
  slugized \<open>s\<close>: \<open>publish\<close> fails with the error \<open>Draft "<slug>" does not exist.\<close>,
  whose message holds the slug, and the world is as it was: nothing was written,
  deleted or moved.
\<close>

theorem publish_draft_not_found:
  assumes slug: "to_string h (get_prop (proto h) data (js ''slug'')) = Inr s"
    and layout: "\<not> field_truthy h (get_prop (proto h) data (js ''layout''))
                 \<or> (\<exists>l. get_prop (proto h) data (js ''layout'') = IsString l)"
    and entries: "listDir h w (path_join h (source_dir h) (js ''_drafts'')) = Inr entries"
    and none: "\<forall>item \<in> set entries. \<not> startsWith item (slugize h s)"
  shows "fst (publish h data replace w) =
           Inl (Error (js ''Draft '' @ [DQUOTE] @ slugize h s @ [DQUOTE] @ js '' does not exist.''))
         \<and> str_includes (js ''Draft '' @ [DQUOTE] @ slugize h s @ [DQUOTE] @ js '' does not exist.'')
              (slugize h s)
         \<and> snd (snd (publish h data replace w)) = w"
proof -
  let ?data1 = "if get_prop (proto h) data (js ''layout'') = IsString (js ''draft'')
                then set_prop (js ''layout'') (IsString (js ''post'')) data else data"
  have s1: "to_string h (get_prop (proto h) ?data1 (js ''slug'')) = Inr s"
    using slug by (simp add: get_prop_set_prop js_def)
  have l1: "\<not> field_truthy h (get_prop (proto h) ?data1 (js ''layout''))
            \<or> (\<exists>l. get_prop (proto h) ?data1 (js ''layout'') = IsString l)"
    using layout by (auto simp: get_prop_set_prop)
  let ?data2 = "set_prop (js ''slug'') (IsString (slugize h s)) ?data1"
  have l2: "get_prop (proto h) ?data2 (js ''layout'') = get_prop (proto h) ?data1 (js ''layout'')"
    by (simp add: get_prop_set_prop js_def)
  have "\<exists>l. lower_case h (or_else h (get_prop (proto h) ?data2 (js ''layout''))
                 (IsString (default_layout h))) = Inr l"
    unfolding l2 using l1 by (auto simp: or_else_def)
  then obtain l where lc: "lower_case h (or_else h (get_prop (proto h) ?data2 (js ''layout''))
                 (IsString (default_layout h))) = Inr l" ..
  have f: "find (draft_regex_test (slugize h s)) entries = None"
    using none by (rule find_draft_none)
  have p: "publish h data replace w =
      (Inl (Error (js ''Draft '' @ [DQUOTE] @ slugize h s @ [DQUOTE] @ js '' does not exist.'')),
       set_prop (js ''layout'') (IsString l) ?data2, w)"
    unfolding publish_def Let_def s1 sum.case lc entries f option.case ..
  have "str_includes (js ''Draft '' @ [DQUOTE] @ slugize h s @ [DQUOTE] @ js '' does not exist.'')
              (slugize h s)"
    using str_includes_append[of "js ''Draft '' @ [DQUOTE]" "slugize h s" "[DQUOTE] @ js '' does not exist.''"]
    by simp
  with p show ?thesis by simp
qed

theorem publish_draft_not_found_witness:
  "publish demo_hexo [(js ''slug'', IsString (js ''my-post''))] True [] =
     (Inl (Error (js ''Draft '' @ [DQUOTE] @ js ''my-post'' @ [DQUOTE] @ js '' does not exist.'')),
      [(js ''slug'', IsString (js ''my-post'')), (js ''layout'', IsString (js ''post''))], [])
   \<and> fst (publish demo_hexo [(js ''slug'', IsString (js ''my-post''))] True []) =
     Inl (Error (js ''Draft '' @ [DQUOTE] @ js ''my-post'' @ [DQUOTE] @ js '' does not exist.''))
   \<and> snd (snd (publish demo_hexo [(js ''slug'', IsString (js ''my-post''))] True [])) = []"
proof -
  have a: "to_string demo_hexo
        (get_prop (proto demo_hexo) [(js ''slug'', IsString (js ''my-post''))] (js ''slug''))
        = Inr (js ''my-post'')"
    by (simp add: get_prop_def)
  have b: "\<not> field_truthy demo_hexo
        (get_prop (proto demo_hexo) [(js ''slug'', IsString (js ''my-post''))] (js ''layout''))
      \<or> (\<exists>l. get_prop (proto demo_hexo) [(js ''slug'', IsString (js ''my-post''))]
             (js ''layout'') = IsString l)"
    by (simp add: get_prop_def demo_hexo_def js_def)
  have c: "listDir demo_hexo [] (path_join demo_hexo (source_dir demo_hexo) (js ''_drafts''))
       = Inr [js ''hello.md'', js ''my-pos.md'']"
    by (simp add: demo_hexo_def)
  have d: "\<forall>item \<in> set [js ''hello.md'', js ''my-pos.md'']. \<not> startsWith item (slugize demo_hexo (js ''my-post''))"
    by (simp add: demo_hexo_def startsWith_def js_def)
  have e: "publish demo_hexo [(js ''slug'', IsString (js ''my-post''))] True [] =
     (Inl (Error (js ''Draft '' @ [DQUOTE] @ js ''my-post'' @ [DQUOTE] @ js '' does not exist.'')),
      [(js ''slug'', IsString (js ''my-post'')), (js ''layout'', IsString (js ''post''))], [])"
    by (simp add: publish_def demo_hexo_def get_prop_def or_else_def draft_regex_test_def js_def
        eval_set_prop)
  show ?thesis
    using publish_draft_not_found [OF a b c d, of True] e
    by (simp add: demo_hexo_def)
qed

text \<open>
  C9. \<open>render\<close> fails with \<open>No input file or string!\<close> exactly when \<open>data.content\<close>
  is \<open>null\<close> or \<open>undefined\<close> and the source path is absent or empty; every other
  failure is an assertion error, a type error or a collaborator's error. When
  \<open>data.content\<close> is there, it is the content that is rendered, whatever the source
  path is: what \<open>render\<close> returns is what the renderer (for an asset) or the post
  pipeline makes of that content, and what reading the file would give or fail with
  changes nothing.
\<close>

theorem render_no_input:
  "(render e w source data = Inl (Error (js ''No input file or string!''))
      \<longleftrightarrow> rd_content data = None \<and> \<not> str_truthy source) \<and>
   (rd_content data = Some content \<longrightarrow>
      render_promise e w source data = Inr content \<and>
      render e w source data =
        (if isPost e data
         then render_post e w source (render_disableNunjucks e source data) data content
         else render_asset e w source data content) \<and>
      render (e\<lparr>r_readFile := f\<rparr>) w source data = render e w source data)"
proof -
  have p: "render_promise e w source data = Inl (Error (js ''No input file or string!''))
      \<longleftrightarrow> rd_content data = None \<and> \<not> str_truthy source"
    by (auto simp: render_promise_def collaborator_no_Error split: option.splits)
  have "render e w source data = Inl (Error (js ''No input file or string!''))
      \<longleftrightarrow> render_promise e w source data = Inl (Error (js ''No input file or string!''))"
  proof (cases "render_promise e w source data")
    case (Inl err)
    then show ?thesis by (simp add: render_def)
  next
    case (Inr c)
    then show ?thesis
      by (simp add: render_def render_asset_no_Error render_post_no_Error)
  qed
  with p show ?thesis
    using render_inline_content[where data = data and content = content and e = e and f = f
        and w = w and source = source]
    by (simp add: render_promise_def render_def)
qed

theorem render_no_input_witness:
  "render demo_renderer () None (demo_data None) = Inl (Error (js ''No input file or string!'')) \<and>
   render demo_renderer () (Some []) (demo_data None) = Inl (Error (js ''No input file or string!'')) \<and>
   render demo_renderer () (Some (js ''a.md'')) (demo_data None)
     = Inr (demo_data (Some (js ''<p>from file''))) \<and>
   render_promise demo_renderer () (Some (js ''a.md'')) (demo_data (Some (js ''inline'')))
     = Inr (js ''inline'') \<and>
   render demo_renderer () (Some (js ''a.md'')) (demo_data (Some (js ''inline'')))
     = Inr (demo_data (Some (js ''<p>inline''))) \<and>
   render (demo_renderer\<lparr>r_readFile := (\<lambda>w p. Inl (js ''ENOENT''))\<rparr>) ()
       (Some (js ''a.md'')) (demo_data (Some (js ''inline'')))
     = Inr (demo_data (Some (js ''<p>inline'')))"
proof -
  have dn: "render_disableNunjucks demo_renderer (Some (js ''a.md'')) d = IsFalse"
    if "rd_disableNunjucks d = None" "rd_engine d = None" for d :: "(unit, unit) RenderData"
    using that
    by (simp add: render_disableNunjucks_def render_ext_def str_truthy_def demo_renderer_def
        js_def)
  have es: "escape_stage IsFalse (js ''inline'') = (js ''inline'', [])"
    "escape_stage IsFalse (js ''from file'') = (js ''from file'', [])"
    by (simp_all add: escape_stage_def match_code_block_def eval_escape)
  have rs: "restoreAllSwigTags [] (js ''<p>inline'') = (Inr (js ''<p>inline''), [])"
    "restoreCodeBlocks [] (js ''<p>inline'') = (Inr (js ''<p>inline''), [])"
    "restoreAllSwigTags [] (js ''<p>from file'') = (Inr (js ''<p>from file''), [])"
    "restoreCodeBlocks [] (js ''<p>from file'') = (Inr (js ''<p>from file''), [])"
    by (simp_all add: eval_restore)
  have post: "render_post demo_renderer () (Some (js ''a.md'')) IsFalse (demo_data x) t
      = Inr (demo_data (Some (js ''<p>'' @ t)))"
    if "escape_stage IsFalse t = (t, [])"
      "restoreAllSwigTags [] (js ''<p>'' @ t) = (Inr (js ''<p>'' @ t), [])"
      "restoreCodeBlocks [] (js ''<p>'' @ t) = (Inr (js ''<p>'' @ t), [])" for x t
    using that
    by (simp add: render_post_def render_with_callback_def onRenderEnd_def after_render_def
        render_options_def collaborator_def demo_renderer_def demo_data_def)
  have ip: "isPost demo_renderer (demo_data x)" for x
    by (simp add: isPost_def demo_data_def str_truthy_def)
  have j: "js ''<p>'' @ js ''inline'' = js ''<p>inline''"
    "js ''<p>'' @ js ''from file'' = js ''<p>from file''"
    by (simp_all add: js_def)
  have r1: "render_post demo_renderer () (Some (js ''a.md'')) IsFalse
      (demo_data (Some (js ''inline''))) (js ''inline'') = Inr (demo_data (Some (js ''<p>inline'')))"
    using post[of "js ''inline''" "Some (js ''inline'')"] es rs by (simp add: j)
  have ne: "js ''a.md'' \<noteq> []"
    by (simp add: js_def)
  have r2: "render demo_renderer () (Some (js ''a.md'')) (demo_data None)
      = Inr (demo_data (Some (js ''<p>from file'')))"
    using ne post[of "js ''from file''" None] es rs dn[of "demo_data None"] ip[of None]
    by (simp add: j render_def render_promise_def str_truthy_def collaborator_def
        demo_data_def demo_renderer_def)
  have d2: "render_disableNunjucks demo_renderer (Some (js ''a.md''))
      (demo_data (Some (js ''inline''))) = IsFalse"
    by (rule dn) (simp_all add: demo_data_def)
  show ?thesis
    using render_no_input [of demo_renderer "()" None "demo_data None"]
      render_no_input [of demo_renderer "()" "Some []" "demo_data None"]
      render_no_input [of demo_renderer "()" "Some (js ''a.md'')"
        "demo_data (Some (js ''inline''))" "js ''inline''" "\<lambda>w p. Inl (js ''ENOENT'')"]
      r1 r2 d2 ip[of "Some (js ''inline'')"]
    by (simp add: demo_data_def str_truthy_def)
qed

end
